theory Spec2Isabelle
  imports Complex_Main "HOL-Library.AList"
begin

section \<open>Data model\<close>

text \<open>
  The records follow the TypeScript interfaces and the rows the pages read. Fields carry a
  short prefix because several interfaces share field names (\<open>name\<close>, \<open>type\<close>, \<open>color\<close>).
  An amount (\<open>tx_amount\<close>, \<open>w_balance\<close>) is the stored decimal value, an exact rational.
  The page functions of the next sections add amounts exactly, and \<open>Number(x)\<close> is the
  identity there; the section on the aggregation with the numbers of the code has the
  monthly bucketing and the totals over IEEE doubles, with every \<open>+\<close> rounded.
\<close>

datatype month = Jan | Feb | Mar | Apr | May | Jun | Jul | Aug | Sep | Oct | Nov | Dec

text \<open>
  A \<open>Date\<close> as the formatting functions of date-fns see it: its calendar fields in the
  viewer's local time. For a transaction, \<open>tx_date\<close> is the value of
  \<open>new Date(transaction.date)\<close>; the column is a date, so this is a valid \<open>Date\<close>
  (\<open>format\<close> throws on an invalid one, which no row holds).
\<close>

record localdate =
  ld_year :: int
  ld_month :: month
  ld_day :: nat

text \<open>The joined \<open>category:categories(name, color)\<close>; \<open>color\<close> may be null.\<close>

record category =
  cat_name :: string
  cat_color :: "string option"

record transaction =
  tx_type :: string
  tx_amount :: rat
  tx_date :: localdate
  tx_category :: "category option"

record wallet =
  w_name :: string
  w_balance :: rat

text \<open>\<open>interface ChartData\<close> of Reports.tsx.\<close>

record ChartData =
  name :: string
  income :: rat
  expense :: rat

text \<open>\<open>interface CategoryData\<close> of Reports.tsx (fields \<open>name\<close>, \<open>value\<close>, \<open>color\<close>).\<close>

record CategoryData =
  cd_name :: string
  cd_value :: rat
  cd_color :: string

text \<open>The \<open>stats\<close> state of the Reports page.\<close>

record report_stats =
  totalIncome :: rat
  totalExpense :: rat
  netBalance :: rat

text \<open>The \<open>stats\<close> state of the Dashboard page.\<close>

record dashboard_stats =
  ds_totalBalance :: rat
  ds_income :: rat
  ds_expenses :: rat

text \<open>The object returned by \<open>getFinancialContext\<close> of AIAssistant.tsx.\<close>

record financial_context =
  walletsCount :: nat
  totalBalance :: rat
  recentIncome :: rat
  recentExpenses :: rat
  transactionsCount :: nat

text \<open>\<open>interface Category\<close> and the \<open>formData\<close> state of the Transactions page.\<close>

record Category =
  c_id :: string
  c_name :: string
  c_type :: string

record formData =
  fd_type :: string
  fd_amount :: string
  fd_description :: string
  fd_date :: string
  fd_wallet_id :: string
  fd_category_id :: string

text \<open>What the anchor element of \<open>exportCSV\<close> offers for download.\<close>

record download =
  dl_content :: string
  dl_type :: string
  dl_name :: string

section \<open>JavaScript and date-fns primitives\<close>

subsection \<open>Decimal numerals\<close>

text \<open>The decimal numeral of a natural number, as \<open>String(n)\<close> writes it.\<close>

fun showNat :: "nat \<Rightarrow> string" where
  "showNat n =
     (if n < 10 then [''0123456789'' ! n]
      else showNat (n div 10) @ [''0123456789'' ! (n mod 10)])"

declare showNat.simps [simp del]

text \<open>\<open>addLeadingZeros\<close> of date-fns: \<open>String(n).padStart(targetLength, "0")\<close>.\<close>

definition addLeadingZeros :: "nat \<Rightarrow> nat \<Rightarrow> string" where
  "addLeadingZeros n targetLength =
     replicate (targetLength - length (showNat n)) (CHR ''0'') @ showNat n"

subsection \<open>Calendar months\<close>

definition months :: "month list" where
  "months = [Jan, Feb, Mar, Apr, May, Jun, Jul, Aug, Sep, Oct, Nov, Dec]"

text \<open>\<open>getMonth()\<close>: January is 0.\<close>

fun getMonth :: "month \<Rightarrow> nat" where
  "getMonth Jan = 0" | "getMonth Feb = 1" | "getMonth Mar = 2" | "getMonth Apr = 3"
| "getMonth May = 4" | "getMonth Jun = 5" | "getMonth Jul = 6" | "getMonth Aug = 7"
| "getMonth Sep = 8" | "getMonth Oct = 9" | "getMonth Nov = 10" | "getMonth Dec = 11"

fun monthAbbr :: "month \<Rightarrow> string" where
  "monthAbbr Jan = ''Jan''" | "monthAbbr Feb = ''Feb''" | "monthAbbr Mar = ''Mar''"
| "monthAbbr Apr = ''Apr''" | "monthAbbr May = ''May''" | "monthAbbr Jun = ''Jun''"
| "monthAbbr Jul = ''Jul''" | "monthAbbr Aug = ''Aug''" | "monthAbbr Sep = ''Sep''"
| "monthAbbr Oct = ''Oct''" | "monthAbbr Nov = ''Nov''" | "monthAbbr Dec = ''Dec''"

definition isLeapYear :: "int \<Rightarrow> bool" where
  "isLeapYear y = (y mod 4 = 0 \<and> (y mod 100 \<noteq> 0 \<or> y mod 400 = 0))"

fun daysInMonth :: "int \<Rightarrow> month \<Rightarrow> nat" where
  "daysInMonth y Feb = (if isLeapYear y then 29 else 28)"
| "daysInMonth y Apr = 30"
| "daysInMonth y Jun = 30"
| "daysInMonth y Sep = 30"
| "daysInMonth y Nov = 30"
| "daysInMonth y m = 31"

text \<open>
  \<open>subMonths(date, amount)\<close> of date-fns: the same day of the month \<open>amount\<close> months earlier,
  or the last day of that month when it is shorter.
\<close>

definition subMonths :: "localdate \<Rightarrow> nat \<Rightarrow> localdate" where
  "subMonths d amount =
     (let k = ld_year d * 12 + int (getMonth (ld_month d)) - int amount;
          y = k div 12;
          m = months ! nat (k mod 12)
      in \<lparr>ld_year = y, ld_month = m, ld_day = min (ld_day d) (daysInMonth y m)\<rparr>)"

text \<open>
  The \<open>yyyy\<close> token of date-fns \<open>format\<close>: the year of the era (\<open>1 - year\<close> for a year
  that is not positive), padded to four digits.
\<close>

definition format_yyyy :: "int \<Rightarrow> string" where
  "format_yyyy signedYear =
     addLeadingZeros (nat (if signedYear > 0 then signedYear else 1 - signedYear)) 4"

text \<open>\<open>format(date, 'MMM yyyy')\<close>.\<close>

definition format_MMM_yyyy :: "localdate \<Rightarrow> string" where
  "format_MMM_yyyy d = monthAbbr (ld_month d) @ '' '' @ format_yyyy (ld_year d)"

text \<open>\<open>format(date, 'yyyy-MM-dd')\<close>.\<close>

definition format_yyyy_MM_dd :: "localdate \<Rightarrow> string" where
  "format_yyyy_MM_dd d =
     format_yyyy (ld_year d) @ ''-'' @ addLeadingZeros (getMonth (ld_month d) + 1) 2
       @ ''-'' @ addLeadingZeros (ld_day d) 2"

subsection \<open>Plain objects used as dictionaries\<close>

text \<open>
  A \<open>Record<string, V>\<close> built from \<open>{}\<close> is the list of its own properties in the order
  of their creation: \<open>map_of\<close> reads an own property, \<open>AList.update\<close> assigns one (in
  place when it exists, at the end otherwise).

  Two things of the language reach such a dictionary. A read \<open>obj[key]\<close> also finds the
  properties inherited from \<open>Object.prototype\<close>, which are all truthy; and
  \<open>Object.entries\<close>/\<open>Object.values\<close> list the keys that are array indices first, in
  ascending numeric order, and the other keys after them in creation order.
\<close>

definition Object_prototype_keys :: "string list" where
  "Object_prototype_keys =
     [''constructor'', ''hasOwnProperty'', ''isPrototypeOf'', ''propertyIsEnumerable'',
      ''toLocaleString'', ''toString'', ''valueOf'', ''__proto__'',
      ''__defineGetter__'', ''__defineSetter__'', ''__lookupGetter__'', ''__lookupSetter__'']"

definition isDigit :: "char \<Rightarrow> bool" where
  "isDigit c = (48 \<le> (of_char c :: nat) \<and> (of_char c :: nat) \<le> 57)"

definition readNat :: "string \<Rightarrow> nat" where
  "readNat s = foldl (\<lambda>a c. a * 10 + (of_char c - 48)) 0 s"

text \<open>An array index: the canonical numeral of an integer from 0 to \<open>2^32 - 2\<close>.\<close>

definition isArrayIndex :: "string \<Rightarrow> bool" where
  "isArrayIndex s =
     (s \<noteq> [] \<and> list_all isDigit s \<and> (length s = 1 \<or> hd s \<noteq> CHR ''0'')
      \<and> readNat s < 4294967295)"

definition Object_entries :: "(string \<times> 'v) list \<Rightarrow> (string \<times> 'v) list" where
  "Object_entries obj =
     sort_key (\<lambda>(k, v). readNat k) (filter (\<lambda>(k, v). isArrayIndex k) obj)
       @ filter (\<lambda>(k, v). \<not> isArrayIndex k) obj"

definition Object_values :: "(string \<times> 'v) list \<Rightarrow> 'v list" where
  "Object_values obj = map snd (Object_entries obj)"

subsection \<open>Strings and arrays\<close>

text \<open>\<open>Array.prototype.join\<close> on an array of strings.\<close>

fun join :: "string \<Rightarrow> string list \<Rightarrow> string" where
  "join sep [] = []"
| "join sep [x] = x"
| "join sep (x # y # ys) = x @ sep @ join sep (y # ys)"

text \<open>\<open>String.prototype.split\<close> at a one-character separator, to read a CSV text back.\<close>

fun split :: "char \<Rightarrow> string \<Rightarrow> string list" where
  "split sep [] = [[]]"
| "split sep (c # cs) =
     (if c = sep then [] # split sep cs
      else (case split sep cs of [] \<Rightarrow> [[c]] | w # ws \<Rightarrow> (c # w) # ws))"



text \<open>
  \<open>String.prototype.toLowerCase\<close> on the letters A to Z; every other character is kept.
  The keywords of the assistant are made of the letters a to z only.
\<close>

definition lowerChar :: "char \<Rightarrow> char" where
  "lowerChar c =
     (if 65 \<le> (of_char c :: nat) \<and> (of_char c :: nat) \<le> 90
      then char_of ((of_char c :: nat) + 32) else c)"

definition toLowerCase :: "string \<Rightarrow> string" where
  "toLowerCase s = map lowerChar s"

text \<open>\<open>x || d\<close> on a string that may be null: null and the empty string are falsy.\<close>

definition or_else :: "string option \<Rightarrow> string \<Rightarrow> string" where
  "or_else x d = (case x of None \<Rightarrow> d | Some s \<Rightarrow> if s = [] then d else s)"

section \<open>Reports page: the aggregation engine\<close>

definition COLORS :: "string list" where
  "COLORS = [''#3B82F6'', ''#10B981'', ''#F59E0B'', ''#EF4444'',
             ''#8B5CF6'', ''#EC4899'', ''#06B6D4'', ''#84CC16'']"

subsection \<open>processMonthlyData\<close>

text \<open>
  The first loop: \<open>for (let i = 5; i >= 0; i--)\<close>. \<open>now\<close> is the value of \<open>new Date()\<close>;
  the six evaluations of the loop are taken to fall into the same month.
\<close>

definition initMonth :: "localdate \<Rightarrow> (string \<times> ChartData) list \<Rightarrow> nat \<Rightarrow> (string \<times> ChartData) list" where
  "initMonth now monthsData i =
     (let monthKey = format_MMM_yyyy (subMonths now i)
      in AList.update monthKey \<lparr>name = monthKey, income = 0, expense = 0\<rparr> monthsData)"

definition initMonths :: "localdate \<Rightarrow> (string \<times> ChartData) list" where
  "initMonths now = foldl (initMonth now) [] [5, 4, 3, 2, 1, 0]"

text \<open>
  The body of \<open>transactions.forEach\<close>. An entry of \<open>monthsData\<close> is an object, hence
  truthy; a month key has a space in it and is never the name of an inherited property
  (\<open>monthKey_not_inherited\<close> below), so \<open>monthsData[monthKey]\<close> is truthy exactly when
  \<open>monthKey\<close> is an own property.
\<close>

definition addToMonth :: "(string \<times> ChartData) list \<Rightarrow> transaction \<Rightarrow> (string \<times> ChartData) list" where
  "addToMonth monthsData t =
     (let monthKey = format_MMM_yyyy (tx_date t)
      in case map_of monthsData monthKey of
           None \<Rightarrow> monthsData
         | Some b \<Rightarrow>
             if tx_type t = ''income''
             then AList.update monthKey (b\<lparr>income := income b + tx_amount t\<rparr>) monthsData
             else if tx_type t = ''expense''
             then AList.update monthKey (b\<lparr>expense := expense b + tx_amount t\<rparr>) monthsData
             else monthsData)"

definition processMonthlyData :: "localdate \<Rightarrow> transaction list \<Rightarrow> ChartData list" where
  "processMonthlyData now transactions =
     Object_values (foldl addToMonth (initMonths now) transactions)"

text \<open>
  The \<open>monthlyData\<close> state of the page once \<open>fetchReportData\<close> has run. The state
  starts as \<open>[]\<close> (\<open>useState<ChartData[]>([])\<close>) and \<open>processMonthlyData\<close> sets it only
  \<open>if (transactions)\<close>: \<open>None\<close> is the null \<open>data\<close> of a query that reports an error (or
  a query that throws), after which the page is rendered with the state unchanged.
\<close>

definition fetchReportData :: "localdate \<Rightarrow> transaction list option \<Rightarrow> ChartData list" where
  "fetchReportData now data =
     (case data of
        None \<Rightarrow> []
      | Some transactions \<Rightarrow> processMonthlyData now transactions)"

subsection \<open>processCategoryData\<close>

text \<open>
  The body of the \<open>forEach\<close> after the filter. For a name that \<open>Object.prototype\<close>
  defines, \<open>categoryMap[categoryName]\<close> is the inherited value: the entry is not created
  and the addition goes to that inherited object, so \<open>categoryMap\<close> keeps its own
  properties.
\<close>

definition addToCategory :: "(string \<times> rat \<times> string) list \<Rightarrow> transaction \<Rightarrow> (string \<times> rat \<times> string) list" where
  "addToCategory categoryMap t =
     (case tx_category t of
        None \<Rightarrow> categoryMap
      | Some c \<Rightarrow>
          (let categoryName = cat_name c;
               categoryColor = or_else (cat_color c) (COLORS ! 0)
           in if categoryName \<in> set Object_prototype_keys then categoryMap
              else (case map_of categoryMap categoryName of
                      None \<Rightarrow> AList.update categoryName (0 + tx_amount t, categoryColor) categoryMap
                    | Some (value, color) \<Rightarrow>
                        AList.update categoryName (value + tx_amount t, color) categoryMap)))"

definition processCategoryData :: "transaction list \<Rightarrow> CategoryData list" where
  "processCategoryData transactions =
     map (\<lambda>(name, value, color). \<lparr>cd_name = name, cd_value = value, cd_color = color\<rparr>)
       (Object_entries
          (foldl addToCategory []
             (filter (\<lambda>t. tx_type t = ''expense'' \<and> tx_category t \<noteq> None) transactions)))"

subsection \<open>calculateStats\<close>

definition calculateStats :: "transaction list \<Rightarrow> report_stats" where
  "calculateStats transactions =
     (let totalIncome =
            foldl (\<lambda>sum t. sum + tx_amount t) 0
              (filter (\<lambda>t. tx_type t = ''income'') transactions);
          totalExpense =
            foldl (\<lambda>sum t. sum + tx_amount t) 0
              (filter (\<lambda>t. tx_type t = ''expense'') transactions)
      in \<lparr>totalIncome = totalIncome, totalExpense = totalExpense,
          netBalance = totalIncome - totalExpense\<rparr>)"

subsection \<open>exportCSV\<close>

text \<open>
  \<open>numberToString\<close> is the conversion \<open>join\<close> applies to a number (\<open>String(x)\<close>); it is
  a parameter. \<open>now\<close> is the value of \<open>new Date()\<close> at the click.
\<close>

definition csvRow :: "(rat \<Rightarrow> string) \<Rightarrow> ChartData \<Rightarrow> string" where
  "csvRow numberToString row =
     join '','' [name row, numberToString (income row), numberToString (expense row),
                numberToString (income row - expense row)]"

definition exportCSV :: "(rat \<Rightarrow> string) \<Rightarrow> localdate \<Rightarrow> ChartData list \<Rightarrow> download" where
  "exportCSV numberToString now monthlyData =
     (let csvContent =
            join [CHR 0x0A]
              (join '','' [''Month'', ''Income'', ''Expense'', ''Net'']
                 # map (csvRow numberToString) monthlyData)
      in \<lparr>dl_content = csvContent, dl_type = ''text/csv'',
          dl_name = ''financial-report-'' @ format_yyyy_MM_dd now @ ''.csv''\<rparr>)"

section \<open>Dashboard page: the totals of fetchData\<close>

text \<open>
  \<open>walletsData\<close> is null when the wallets query reports an error; the totals are computed
  when \<open>statsData\<close> (the rows of \<open>select('type, amount')\<close>) is there.
\<close>

definition dashboardStats :: "wallet list option \<Rightarrow> transaction list \<Rightarrow> dashboard_stats" where
  "dashboardStats walletsData statsData =
     (let totalBalance =
            (case walletsData of
               None \<Rightarrow> 0
             | Some ws \<Rightarrow> foldl (\<lambda>sum w. sum + w_balance w) 0 ws);
          income =
            foldl (\<lambda>sum t. sum + tx_amount t) 0
              (filter (\<lambda>t. tx_type t = ''income'') statsData);
          expenses =
            foldl (\<lambda>sum t. sum + tx_amount t) 0
              (filter (\<lambda>t. tx_type t = ''expense'') statsData)
      in \<lparr>ds_totalBalance = totalBalance, ds_income = income, ds_expenses = expenses\<rparr>)"

section \<open>The data backend, as the pages query it\<close>

text \<open>
  The rows of the two tables the assistant reads, each in the order in which the store
  returns them to a \<open>select\<close> without an \<open>order\<close> clause; \<open>None\<close> is the null \<open>data\<close>
  of a query that reports an error.
\<close>

record backend =
  b_wallets :: "wallet list option"
  b_transactions :: "transaction list option"

text \<open>\<open>.limit(n)\<close>: the first \<open>n\<close> rows of the result.\<close>

definition limit :: "nat \<Rightarrow> 'a list \<Rightarrow> 'a list" where
  "limit n rows = take n rows"

text \<open>
  \<open>.order('date', { ascending: false })\<close>, as the Dashboard and the Transactions page
  ask for it: the rows by decreasing date.
\<close>

definition dateKey :: "localdate \<Rightarrow> int" where
  "dateKey d = (ld_year d * 12 + int (getMonth (ld_month d))) * 32 + int (ld_day d)"

definition order_date_desc :: "transaction list \<Rightarrow> transaction list" where
  "order_date_desc rows = rev (sort_key (\<lambda>t. dateKey (tx_date t)) rows)"

section \<open>The assistant responder\<close>

subsection \<open>getFinancialContext\<close>

text \<open>
  The argument is what the two queries deliver: \<open>None\<close> when \<open>Promise.all\<close> rejects
  (the \<open>catch\<close> branch, which returns null). The transactions query carries \<open>.limit(20)\<close>
  and no \<open>order\<close>.
\<close>

definition getFinancialContext :: "backend option \<Rightarrow> financial_context option" where
  "getFinancialContext res =
     (case res of
        None \<Rightarrow> None
      | Some db \<Rightarrow>
          (let wallets = (case b_wallets db of None \<Rightarrow> [] | Some ws \<Rightarrow> ws);
               transactions = (case b_transactions db of None \<Rightarrow> [] | Some ts \<Rightarrow> limit 20 ts);
               totalBalance = foldl (\<lambda>sum w. sum + w_balance w) 0 wallets;
               recentIncome =
                 foldl (\<lambda>sum t. sum + tx_amount t) 0
                   (filter (\<lambda>t. tx_type t = ''income'') transactions);
               recentExpenses =
                 foldl (\<lambda>sum t. sum + tx_amount t) 0
                   (filter (\<lambda>t. tx_type t = ''expense'') transactions)
           in Some \<lparr>walletsCount = length wallets, totalBalance = totalBalance,
                    recentIncome = recentIncome, recentExpenses = recentExpenses,
                    transactionsCount = length transactions\<rparr>))"

subsection \<open>The savings rate\<close>

text \<open>
  The result of a JavaScript division of two finite numbers: a zero divisor gives an
  infinity or NaN, never an exception.
\<close>

datatype jsnum = Finite rat | PosInfinity | NegInfinity | NaN

definition js_div :: "rat \<Rightarrow> rat \<Rightarrow> jsnum" where
  "js_div a b =
     (if b \<noteq> 0 then Finite (a / b)
      else if a > 0 then PosInfinity else if a < 0 then NegInfinity else NaN)"

definition js_times :: "jsnum \<Rightarrow> rat \<Rightarrow> jsnum" where
  "js_times x c =
     (case x of
        Finite r \<Rightarrow> Finite (r * c)
      | NaN \<Rightarrow> NaN
      | PosInfinity \<Rightarrow> (if c > 0 then PosInfinity else if c < 0 then NegInfinity else NaN)
      | NegInfinity \<Rightarrow> (if c > 0 then NegInfinity else if c < 0 then PosInfinity else NaN))"

definition savings :: "financial_context \<Rightarrow> rat" where
  "savings context = recentIncome context - recentExpenses context"

definition savingsRate :: "financial_context \<Rightarrow> jsnum" where
  "savingsRate context =
     (if recentIncome context > 0
      then js_times (js_div (savings context) (recentIncome context)) 100
      else Finite 0)"

text \<open>\<open>x.toFixed(1)\<close>, given the conversion of a finite number.\<close>

definition toFixed :: "(rat \<Rightarrow> string) \<Rightarrow> jsnum \<Rightarrow> string" where
  "toFixed toFixed1 x =
     (case x of
        Finite r \<Rightarrow> toFixed1 r
      | PosInfinity \<Rightarrow> ''Infinity''
      | NegInfinity \<Rightarrow> ''-Infinity''
      | NaN \<Rightarrow> ''NaN'')"

subsection \<open>generateAIResponse\<close>














section \<open>Transactions page: the type buttons of the form\<close>

text \<open>The two \<open>onClick\<close> handlers of the type buttons.\<close>

definition onClickIncome :: "formData \<Rightarrow> formData" where
  "onClickIncome formData = formData\<lparr>fd_type := ''income'', fd_category_id := []\<rparr>"

definition onClickExpense :: "formData \<Rightarrow> formData" where
  "onClickExpense formData = formData\<lparr>fd_type := ''expense'', fd_category_id := []\<rparr>"

definition availableCategories :: "Category list \<Rightarrow> formData \<Rightarrow> Category list" where
  "availableCategories categories formData =
     filter (\<lambda>c. c_type c = fd_type formData) categories"

section \<open>The aggregation with the numbers of the code\<close>

text \<open>
  A JavaScript \<open>number\<close> is an IEEE 754 double, and every \<open>+\<close> of the code rounds its
  exact result to the nearest double. The definitions above add exactly; they give every
  relation that does not depend on how a sum is grouped. This section has the monthly
  bucketing and the totals of \<open>calculateStats\<close> with the additions as the code performs
  them, for the one relation that does depend on it: the comparison of sums that group the
  same amounts differently.
\<close>

subsection \<open>Rounding to a double\<close>

text \<open>The number of binary digits of a natural number.\<close>

fun bitLength :: "nat \<Rightarrow> nat" where
  "bitLength n = (if n = 0 then 0 else 1 + bitLength (n div 2))"

declare bitLength.simps [simp del]

text \<open>The binary exponent of a positive rational: \<open>2 ^ e \<le> x < 2 ^ (e + 1)\<close>.\<close>

definition exponent :: "rat \<Rightarrow> int" where
  "exponent x =
     (if x \<ge> 1 then int (bitLength (nat \<lfloor>x\<rfloor>)) - 1
      else - int (bitLength (nat (\<lceil>1 / x\<rceil> - 1))))"

definition pow2 :: "int \<Rightarrow> rat" where
  "pow2 e = (if e \<ge> 0 then 2 ^ nat e else 1 / 2 ^ nat (- e))"

text \<open>The nearest integer, the even one of two that are equally near.\<close>

definition roundHalfEven :: "rat \<Rightarrow> int" where
  "roundHalfEven y =
     (let f = \<lfloor>y\<rfloor>; d = y - of_int f
      in if d < 1 / 2 then f else if d > 1 / 2 then f + 1 else if even f then f else f + 1)"

text \<open>
  Round to nearest, ties to even, in binary64: 53 significant bits, exponents from -1022
  (below it the spacing of the subnormal numbers, \<open>2 ^ -1074\<close>) to 1023 (a result of
  \<open>2 ^ 1024\<close> or more is an infinity). The two zeros are not told apart.
\<close>

definition round_double :: "rat \<Rightarrow> jsnum" where
  "round_double x =
     (if x = 0 then Finite 0
      else (let e = max (exponent \<bar>x\<bar>) (- 1022);
                q = pow2 (e - 52);
                r = of_int (roundHalfEven (\<bar>x\<bar> / q)) * q
            in if r \<ge> 2 ^ 1024 then (if x > 0 then PosInfinity else NegInfinity)
               else Finite (if x > 0 then r else - r)))"

text \<open>The \<open>+\<close> of two numbers.\<close>

fun js_add :: "jsnum \<Rightarrow> jsnum \<Rightarrow> jsnum" where
  "js_add (Finite x) (Finite y) = round_double (x + y)"
| "js_add NaN b = NaN"
| "js_add a NaN = NaN"
| "js_add PosInfinity NegInfinity = NaN"
| "js_add NegInfinity PosInfinity = NaN"
| "js_add PosInfinity b = PosInfinity"
| "js_add NegInfinity b = NegInfinity"
| "js_add a PosInfinity = PosInfinity"
| "js_add a NegInfinity = NegInfinity"

text \<open>
  \<open>Number(transaction.amount)\<close>: the double that the JSON number of the stored decimal
  amount denotes.
\<close>

definition Number :: "rat \<Rightarrow> jsnum" where
  "Number x = round_double x"

subsection \<open>processMonthlyData and the totals of calculateStats\<close>

record ChartData_double =
  name_double :: string
  income_double :: jsnum
  expense_double :: jsnum

definition initMonth_double :: "localdate \<Rightarrow> (string \<times> ChartData_double) list \<Rightarrow> nat \<Rightarrow> (string \<times> ChartData_double) list" where
  "initMonth_double now monthsData i =
     (let monthKey = format_MMM_yyyy (subMonths now i)
      in AList.update monthKey
           \<lparr>name_double = monthKey, income_double = Finite 0, expense_double = Finite 0\<rparr>
           monthsData)"

definition initMonths_double :: "localdate \<Rightarrow> (string \<times> ChartData_double) list" where
  "initMonths_double now = foldl (initMonth_double now) [] [5, 4, 3, 2, 1, 0]"

definition addToMonth_double :: "(string \<times> ChartData_double) list \<Rightarrow> transaction \<Rightarrow> (string \<times> ChartData_double) list" where
  "addToMonth_double monthsData t =
     (let monthKey = format_MMM_yyyy (tx_date t)
      in case map_of monthsData monthKey of
           None \<Rightarrow> monthsData
         | Some b \<Rightarrow>
             if tx_type t = ''income''
             then AList.update monthKey
                    (b\<lparr>income_double := js_add (income_double b) (Number (tx_amount t))\<rparr>)
                    monthsData
             else if tx_type t = ''expense''
             then AList.update monthKey
                    (b\<lparr>expense_double := js_add (expense_double b) (Number (tx_amount t))\<rparr>)
                    monthsData
             else monthsData)"

definition processMonthlyData_double :: "localdate \<Rightarrow> transaction list \<Rightarrow> ChartData_double list" where
  "processMonthlyData_double now transactions =
     Object_values (foldl addToMonth_double (initMonths_double now) transactions)"

text \<open>The two \<open>reduce\<close> calls of \<open>calculateStats\<close>.\<close>

definition totalIncome_double :: "transaction list \<Rightarrow> jsnum" where
  "totalIncome_double transactions =
     foldl (\<lambda>sum t. js_add sum (Number (tx_amount t))) (Finite 0)
       (filter (\<lambda>t. tx_type t = ''income'') transactions)"

definition totalExpense_double :: "transaction list \<Rightarrow> jsnum" where
  "totalExpense_double transactions =
     foldl (\<lambda>sum t. js_add sum (Number (tx_amount t))) (Finite 0)
       (filter (\<lambda>t. tx_type t = ''expense'') transactions)"

subsection \<open>The date of a transaction\<close>

text \<open>
  \<open>new Date(s)\<close> for a date-only string \<open>s\<close> (\<open>yyyy-MM-dd\<close>, here as its calendar fields)
  is midnight UTC of that day. In a time zone \<open>utcOffset\<close> minutes east of UTC (between
  -720 and 840) its local calendar fields are those of the same day when the offset is not
  negative and those of the day before when it is.
\<close>

definition previousDay :: "localdate \<Rightarrow> localdate" where
  "previousDay d =
     (if ld_day d > 1 then d\<lparr>ld_day := ld_day d - 1\<rparr>
      else (let y = (if ld_month d = Jan then ld_year d - 1 else ld_year d);
                m = (if ld_month d = Jan then Dec else months ! (getMonth (ld_month d) - 1))
            in \<lparr>ld_year = y, ld_month = m, ld_day = daysInMonth y m\<rparr>))"

definition new_Date :: "int \<Rightarrow> localdate \<Rightarrow> localdate" where
  "new_Date utcOffset s = (if utcOffset < 0 then previousDay s else s)"

section \<open>Notions of the specification\<close>

text \<open>
  The six-month window: the labels of the months from five months before the month of
  \<open>now\<close> to the month of \<open>now\<close>, oldest first.
\<close>

definition window :: "localdate \<Rightarrow> string list" where
  "window now = map (\<lambda>i. format_MMM_yyyy (subMonths now i)) [5, 4, 3, 2, 1, 0]"


text \<open>
  The sum of the amounts of the income-type (expense-type) transactions whose month label
  is \<open>k\<close>.
\<close>

definition monthIncome :: "string \<Rightarrow> transaction list \<Rightarrow> rat" where
  "monthIncome k ts =
     sum_list (map tx_amount
       (filter (\<lambda>t. tx_type t = ''income'' \<and> format_MMM_yyyy (tx_date t) = k) ts))"

definition monthExpense :: "string \<Rightarrow> transaction list \<Rightarrow> rat" where
  "monthExpense k ts =
     sum_list (map tx_amount
       (filter (\<lambda>t. tx_type t = ''expense'' \<and> format_MMM_yyyy (tx_date t) = k) ts))"

text \<open>
  The expense-type transactions whose category has the name \<open>n\<close>, in the order of the
  list, and the color a bucket takes from a transaction: the color of its category, or the
  default \<open>#3B82F6\<close> when that color is null or empty.
\<close>

definition categoryExpenses :: "string \<Rightarrow> transaction list \<Rightarrow> transaction list" where
  "categoryExpenses n ts =
     filter (\<lambda>t. tx_type t = ''expense'' \<and> map_option cat_name (tx_category t) = Some n) ts"

definition bucketColor :: "transaction \<Rightarrow> string" where
  "bucketColor t =
     (case tx_category t of
        None \<Rightarrow> ''#3B82F6''
      | Some c \<Rightarrow> (case cat_color c of
                     None \<Rightarrow> ''#3B82F6''
                   | Some s \<Rightarrow> if s = [] then ''#3B82F6'' else s))"

text \<open>
  The topics of the assistant in their priority order, each with its keywords; the first
  topic one of whose keywords occurs in the lower-cased message; and the reply template of
  a topic, filled from the snapshot.
\<close>

datatype topic = Balance | Income | Expense | Savings | Wallets | Advice




text \<open>
  The sum of the income (expense) values of a list of buckets, added in the order of the
  buckets with the additions of the code, and the sums of the amounts of one month in
  that arithmetic.
\<close>

definition sumIncome_double :: "ChartData_double list \<Rightarrow> jsnum" where
  "sumIncome_double rows = foldl (\<lambda>sum row. js_add sum (income_double row)) (Finite 0) rows"

definition sumExpense_double :: "ChartData_double list \<Rightarrow> jsnum" where
  "sumExpense_double rows = foldl (\<lambda>sum row. js_add sum (expense_double row)) (Finite 0) rows"

definition monthIncome_double :: "string \<Rightarrow> transaction list \<Rightarrow> jsnum" where
  "monthIncome_double k ts =
     foldl (\<lambda>sum t. js_add sum (Number (tx_amount t))) (Finite 0)
       (filter (\<lambda>t. tx_type t = ''income'' \<and> format_MMM_yyyy (tx_date t) = k) ts)"

definition monthExpense_double :: "string \<Rightarrow> transaction list \<Rightarrow> jsnum" where
  "monthExpense_double k ts =
     foldl (\<lambda>sum t. js_add sum (Number (tx_amount t))) (Finite 0)
       (filter (\<lambda>t. tx_type t = ''expense'' \<and> format_MMM_yyyy (tx_date t) = k) ts)"

section \<open>Verification\<close>

subsection \<open>Sums\<close>

lemma foldl_plus_sum_list:
  "foldl (\<lambda>sum x. sum + f x) (a::rat) xs = a + sum_list (map f xs)"
  by (induction xs arbitrary: a) simp_all

subsection \<open>Evaluation on numerals\<close>

lemma showNat_numeral:
  "showNat (numeral n) =
     (if (numeral n :: nat) < 10 then [''0123456789'' ! numeral n]
      else showNat (numeral n div 10) @ [''0123456789'' ! (numeral n mod 10)])"
  by (rule showNat.simps)

lemma showNat_small: "showNat 0 = ''0''" "showNat 1 = ''1''" "showNat (Suc 0) = ''1''"
  by (simp_all add: showNat.simps)

lemmas eval_dates = window_def subMonths_def Let_def months_def format_MMM_yyyy_def
  format_yyyy_def format_yyyy_MM_dd_def addLeadingZeros_def showNat_numeral showNat_small isLeapYear_def

subsection \<open>The months of the window\<close>

lemma monthAbbr_inj: "monthAbbr a = monthAbbr b \<Longrightarrow> a = b"
  by (cases a; cases b; simp)

lemma length_monthAbbr: "length (monthAbbr m) = 3"
  by (cases m) simp_all

lemma format_MMM_yyyy_month:
  "format_MMM_yyyy a = format_MMM_yyyy b \<Longrightarrow> ld_month a = ld_month b"
proof -
  assume h: "format_MMM_yyyy a = format_MMM_yyyy b"
  have "take 3 (format_MMM_yyyy a) = monthAbbr (ld_month a)"
    by (simp add: format_MMM_yyyy_def length_monthAbbr)
  moreover have "take 3 (format_MMM_yyyy b) = monthAbbr (ld_month b)"
    by (simp add: format_MMM_yyyy_def length_monthAbbr)
  ultimately show ?thesis using h monthAbbr_inj by simp
qed

lemma distinct_months: "distinct months" "length months = 12"
  by (simp_all add: months_def)

lemma ld_month_subMonths:
  "ld_month (subMonths d i) = months ! nat ((ld_year d * 12 + int (getMonth (ld_month d)) - int i) mod 12)"
  by (simp add: subMonths_def Let_def)

lemma months_nth_inj:
  assumes "months ! nat ((b - int i) mod 12) = months ! nat ((b - int j) mod 12)"
    and "i \<le> 5" and "j \<le> 5"
  shows "i = j"
proof -
  have bi: "nat ((b - int i) mod 12) < length months" and bj: "nat ((b - int j) mod 12) < length months"
    by (simp_all add: distinct_months nat_less_iff)
  from assms(1) have "nat ((b - int i) mod 12) = nat ((b - int j) mod 12)"
    using distinct_months(1) bi bj by (simp add: nth_eq_iff_index_eq)
  then have "(b - int i) mod 12 = (b - int j) mod 12"
    by (simp add: nat_eq_iff)
  then have "(12::int) dvd ((b - int i) - (b - int j))"
    by (simp only: mod_eq_dvd_iff)
  then obtain k where k: "(b - int i) - (b - int j) = 12 * k" ..
  with assms(2,3) show ?thesis by arith
qed

lemma window_inj: "inj_on (\<lambda>i. format_MMM_yyyy (subMonths now i)) {i. i \<le> 5}"
proof (rule inj_onI)
  fix i j assume "i \<in> {i. i \<le> (5::nat)}" "j \<in> {i. i \<le> (5::nat)}"
    and eq: "format_MMM_yyyy (subMonths now i) = format_MMM_yyyy (subMonths now j)"
  then have ij: "i \<le> 5" "j \<le> 5" by simp_all
  from eq have "ld_month (subMonths now i) = ld_month (subMonths now j)"
    by (rule format_MMM_yyyy_month)
  then show "i = j" using ij by (simp add: ld_month_subMonths months_nth_inj)
qed

lemma distinct_window: "distinct (window now)"
  unfolding window_def
  by (simp only: distinct_map, rule conjI, simp, rule inj_on_subset [OF window_inj], simp)






subsection \<open>Dictionaries whose values are given by their keys\<close>

lemma update_absent: "k \<notin> fst ` set al \<Longrightarrow> AList.update k v al = al @ [(k, v)]"
  by (induction al) auto

lemma map_of_keyed: "map_of (map (\<lambda>x. (x, g x)) ks) k = (if k \<in> set ks then Some (g k) else None)"
  by (induction ks) auto

lemma update_keyed:
  "distinct ks \<Longrightarrow> k \<in> set ks \<Longrightarrow>
   AList.update k v (map (\<lambda>x. (x, g x)) ks) = map (\<lambda>x. (x, if x = k then v else g x)) ks"
  by (induction ks) (auto simp: update_absent image_iff intro!: map_idI)

lemma monthKey_not_inherited: "format_MMM_yyyy d \<notin> set Object_prototype_keys"
  by (cases "ld_month d") (simp_all add: format_MMM_yyyy_def Object_prototype_keys_def)

lemma not_isArrayIndex_label: "\<not> isArrayIndex (format_MMM_yyyy d)"
  by (cases "ld_month d") (simp_all add: isArrayIndex_def format_MMM_yyyy_def isDigit_def)

lemma Object_entries_no_index:
  "(\<forall>k \<in> fst ` set obj. \<not> isArrayIndex k) \<Longrightarrow> Object_entries obj = obj"
proof -
  assume h: "\<forall>k \<in> fst ` set obj. \<not> isArrayIndex k"
  then have "filter (\<lambda>(k, v). isArrayIndex k) obj = []"
    by (auto simp: filter_empty_conv)
  moreover from h have "filter (\<lambda>(k, v). \<not> isArrayIndex k) obj = obj"
    by (auto simp: filter_id_conv)
  ultimately show ?thesis by (simp add: Object_entries_def)
qed

lemma window_not_index: "k \<in> set (window now) \<Longrightarrow> \<not> isArrayIndex k"
  by (auto simp: window_def not_isArrayIndex_label)

subsection \<open>Monthly bucketing\<close>

lemma addToMonth_keyed:
  assumes "distinct ks"
  shows "addToMonth (map (\<lambda>k. (k, \<lparr>name = k, income = fi k, expense = fe k\<rparr>)) ks) t
    = map (\<lambda>k. (k, \<lparr>name = k,
         income = fi k + (if tx_type t = ''income'' \<and> format_MMM_yyyy (tx_date t) = k then tx_amount t else 0),
         expense = fe k + (if tx_type t = ''expense'' \<and> format_MMM_yyyy (tx_date t) = k then tx_amount t else 0)\<rparr>)) ks"
proof (cases "format_MMM_yyyy (tx_date t) \<in> set ks")
  case False
  then show ?thesis
    by (auto simp: addToMonth_def Let_def map_of_keyed)
next
  case True
  then show ?thesis using assms
    by (auto simp: addToMonth_def Let_def map_of_keyed update_keyed)
qed

lemma foldl_addToMonth_keyed:
  "distinct ks \<Longrightarrow>
   foldl addToMonth (map (\<lambda>k. (k, \<lparr>name = k, income = fi k, expense = fe k\<rparr>)) ks) ts
    = map (\<lambda>k. (k, \<lparr>name = k, income = fi k + monthIncome k ts,
                     expense = fe k + monthExpense k ts\<rparr>)) ks"
proof (induction ts arbitrary: fi fe)
  case Nil
  then show ?case by (simp add: monthIncome_def monthExpense_def)
next
  case (Cons t ts)
  show ?case
    apply (simp only: foldl_Cons addToMonth_keyed [OF Cons.prems] Cons.IH [OF Cons.prems])
    apply (rule map_cong [OF refl])
    apply (simp add: monthIncome_def monthExpense_def)
    done
qed

lemma foldl_initMonth:
  "distinct (map (\<lambda>i. format_MMM_yyyy (subMonths now i)) is) \<Longrightarrow>
   (\<lambda>i. format_MMM_yyyy (subMonths now i)) ` set is \<inter> fst ` set acc = {} \<Longrightarrow>
   foldl (initMonth now) acc is
     = acc @ map (\<lambda>i. (format_MMM_yyyy (subMonths now i),
                       \<lparr>name = format_MMM_yyyy (subMonths now i), income = 0, expense = 0\<rparr>)) is"
proof (induction "is" arbitrary: acc)
  case Nil
  then show ?case by simp
next
  case (Cons i "is")
  have a: "format_MMM_yyyy (subMonths now i) \<notin> fst ` set acc"
    using Cons.prems(2) by auto
  have step: "initMonth now acc i = acc @ [(format_MMM_yyyy (subMonths now i),
      \<lparr>name = format_MMM_yyyy (subMonths now i), income = 0, expense = 0\<rparr>)]"
    by (simp add: initMonth_def Let_def update_absent [OF a])
  have d: "distinct (map (\<lambda>i. format_MMM_yyyy (subMonths now i)) is)"
    using Cons.prems(1) by simp
  have e: "(\<lambda>i. format_MMM_yyyy (subMonths now i)) ` set is
      \<inter> fst ` set (acc @ [(format_MMM_yyyy (subMonths now i),
      \<lparr>name = format_MMM_yyyy (subMonths now i), income = 0, expense = 0\<rparr>)]) = {}"
    using Cons.prems by auto
  show ?case
    by (simp only: foldl_Cons step Cons.IH [OF d e]) simp
qed

lemma initMonths_keyed:
  "initMonths now = map (\<lambda>k. (k, \<lparr>name = k, income = 0, expense = 0\<rparr>)) (window now)"
proof -
  have "distinct (map (\<lambda>i. format_MMM_yyyy (subMonths now i)) [5, 4, 3, 2, 1, 0])"
    using distinct_window [of now] by (simp only: window_def)
  then have "foldl (initMonth now) [] [5, 4, 3, 2, 1, 0]
     = [] @ map (\<lambda>i. (format_MMM_yyyy (subMonths now i),
                       \<lparr>name = format_MMM_yyyy (subMonths now i), income = 0, expense = 0\<rparr>)) [5, 4, 3, 2, 1, 0]"
    by (rule foldl_initMonth) simp
  then show ?thesis by (simp add: initMonths_def window_def)
qed

lemma processMonthlyData_eq:
  "processMonthlyData now ts
     = map (\<lambda>k. \<lparr>name = k, income = monthIncome k ts, expense = monthExpense k ts\<rparr>) (window now)"
proof -
  have f: "foldl addToMonth (initMonths now) ts
     = map (\<lambda>k. (k, \<lparr>name = k, income = 0 + monthIncome k ts,
                     expense = 0 + monthExpense k ts\<rparr>)) (window now)"
    by (simp only: initMonths_keyed foldl_addToMonth_keyed [OF distinct_window])
  have "\<forall>k \<in> fst ` set (foldl addToMonth (initMonths now) ts). \<not> isArrayIndex k"
    by (auto simp: f image_iff window_not_index)
  then have "Object_entries (foldl addToMonth (initMonths now) ts) = foldl addToMonth (initMonths now) ts"
    by (rule Object_entries_no_index)
  then show ?thesis
    by (simp add: processMonthlyData_def Object_values_def f comp_def)
qed

lemma monthIncome_drop:
  "\<not> (tx_type t = ''income'' \<and> format_MMM_yyyy (tx_date t) = k) \<Longrightarrow>
   monthIncome k (xs @ t # ys) = monthIncome k (xs @ ys)"
  by (auto simp: monthIncome_def)

lemma monthExpense_drop:
  "\<not> (tx_type t = ''expense'' \<and> format_MMM_yyyy (tx_date t) = k) \<Longrightarrow>
   monthExpense k (xs @ t # ys) = monthExpense k (xs @ ys)"
  by (auto simp: monthExpense_def)




subsection \<open>Monthly sums against the global totals\<close>

lemma sum_list_if_key:
  "distinct ks \<Longrightarrow> sum_list (map (\<lambda>k. if a = k then (c::rat) else 0) ks) = (if a \<in> set ks then c else 0)"
  by (induction ks) auto

lemma sum_over_keys:
  assumes "distinct ks"
  shows "(\<forall>t \<in> set ts. key t \<in> set ks) \<Longrightarrow>
    sum_list (map (\<lambda>k. sum_list (map f (filter (\<lambda>t. P t \<and> key t = k) ts))) ks)
      = (sum_list (map f (filter P ts)) :: rat)"
proof (induction ts)
  case Nil
  then show ?case by simp
next
  case (Cons t ts)
  have split: "\<And>k. sum_list (map f (filter (\<lambda>t. P t \<and> key t = k) (t # ts)))
      = (if key t = k then (if P t then f t else 0) else 0)
        + sum_list (map f (filter (\<lambda>t. P t \<and> key t = k) ts))"
    by simp
  have "key t \<in> set ks" using Cons.prems by simp
  then have one: "sum_list (map (\<lambda>k. if key t = k then (if P t then f t else 0) else 0) ks)
      = (if P t then f t else 0)"
    by (simp add: sum_list_if_key [OF assms])
  have rest: "sum_list (map (\<lambda>k. sum_list (map f (filter (\<lambda>t. P t \<and> key t = k) ts))) ks)
      = sum_list (map f (filter P ts))"
    using Cons by simp
  show ?case
    by (simp only: split sum_list_addf one rest) simp
qed

subsection \<open>Doubles: whole numbers below 2 ^ 53 add without rounding\<close>

lemma bitLength_less: "n < 2 ^ bitLength n"
proof (induction n rule: bitLength.induct)
  case (1 n)
  show ?case
  proof (cases "n = 0")
    case True
    then show ?thesis by (simp add: bitLength.simps)
  next
    case False
    with 1 have "n div 2 < 2 ^ bitLength (n div 2)" by simp
    then have "n < 2 * 2 ^ bitLength (n div 2)" by linarith
    with False show ?thesis by (subst bitLength.simps) simp
  qed
qed

lemma bitLength_ge: "0 < n \<Longrightarrow> 2 ^ (bitLength n - 1) \<le> n"
proof (induction n rule: bitLength.induct)
  case (1 n)
  show ?case
  proof (cases "n div 2 = 0")
    case True
    with 1(2) have "n = 1" by linarith
    then show ?thesis by (simp add: bitLength.simps)
  next
    case False
    with 1 have ih: "2 ^ (bitLength (n div 2) - 1) \<le> n div 2" by simp
    from False have p: "0 < bitLength (n div 2)"
      by (subst bitLength.simps) simp
    have "bitLength n = 1 + bitLength (n div 2)"
      using 1(2) by (subst bitLength.simps) simp
    then have "(2::nat) ^ (bitLength n - 1) = 2 * 2 ^ (bitLength (n div 2) - 1)"
      using p by (cases "bitLength (n div 2)") simp_all
    with ih show ?thesis by linarith
  qed
qed

lemma bitLength_le: "n < 2 ^ k \<Longrightarrow> bitLength n \<le> k"
proof (rule ccontr)
  assume n: "n < 2 ^ k" and "\<not> bitLength n \<le> k"
  then have k: "k \<le> bitLength n - 1" and pos: "0 < bitLength n" by simp_all
  from pos have "0 < n" by (subst (asm) bitLength.simps) (simp split: if_splits)
  then have "2 ^ (bitLength n - 1) \<le> n" by (rule bitLength_ge)
  moreover have "(2::nat) ^ k \<le> 2 ^ (bitLength n - 1)"
    using k by (simp add: power_increasing)
  ultimately show False using n by linarith
qed

lemma bitLength_pos: "0 < n \<Longrightarrow> 0 < bitLength n"
  by (subst bitLength.simps) simp

lemma pow2_nonpos: "e \<le> 0 \<Longrightarrow> pow2 e = 1 / 2 ^ nat (- e)"
  by (cases "e = 0") (simp_all add: pow2_def)

lemma roundHalfEven_of_int: "roundHalfEven (of_int m) = m"
  by (simp add: roundHalfEven_def)

lemma round_double_of_nat:
  assumes "n < 2 ^ 53"
  shows "round_double (of_nat n) = Finite (of_nat n)"
proof (cases "n = 0")
  case True
  then show ?thesis by (simp add: round_double_def)
next
  case False
  define b where "b = bitLength n"
  define j where "j = 53 - b"
  have b: "1 \<le> b" "b \<le> 53"
    using False assms by (simp_all add: b_def bitLength_pos bitLength_le Suc_leI)
  have x: "(of_nat n :: rat) \<ge> 1" "(of_nat n :: rat) \<noteq> 0" "(of_nat n :: rat) > 0"
    using False by simp_all
  have e: "exponent (of_nat n) = int b - 1"
    using x(1) by (simp add: exponent_def b_def)
  have m: "max (int b - 1) (- 1022) = int b - 1"
    using b by simp
  have q: "pow2 (int b - 1 - 52) = 1 / 2 ^ j"
  proof -
    have "int b - 1 - 52 \<le> 0" using b by simp
    then have "pow2 (int b - 1 - 52) = 1 / 2 ^ nat (- (int b - 1 - 52))"
      by (rule pow2_nonpos)
    moreover have "nat (- (int b - 1 - 52)) = j"
      using b by (simp add: j_def)
    ultimately show ?thesis by simp
  qed
  have d: "(of_nat n :: rat) / (1 / 2 ^ j) = of_int (int (n * 2 ^ j))"
    by simp
  have r: "of_int (roundHalfEven ((of_nat n :: rat) / (1 / 2 ^ j))) * (1 / 2 ^ j) = (of_nat n :: rat)"
    by (simp only: d roundHalfEven_of_int) simp
  have "(of_nat n :: rat) < of_nat (2 ^ 53)"
    using assms by (simp only: of_nat_less_iff)
  also have "\<dots> \<le> 2 ^ 1024" by simp
  finally have small: "\<not> (of_nat n :: rat) \<ge> 2 ^ 1024" by simp
  show ?thesis
    unfolding round_double_def Let_def abs_of_nat e m q r
    using x(2,3) small by simp
qed

lemma round_double_Nats:
  assumes "x \<in> \<nat>" and "x < 2 ^ 53"
  shows "round_double x = Finite x"
proof -
  from assms(1) obtain n where n: "x = of_nat n" by (auto elim: Nats_cases)
  with assms(2) have "(of_nat n :: rat) < of_nat (2 ^ 53)" by simp
  then have "n < 2 ^ 53" by (simp only: of_nat_less_iff)
  then show ?thesis unfolding n by (rule round_double_of_nat)
qed

lemma Nats_nonneg: "(x::rat) \<in> \<nat> \<Longrightarrow> 0 \<le> x"
  by (auto elim: Nats_cases)

lemma sum_list_Nats:
  "(\<forall>x \<in> set xs. h x \<in> \<nat>) \<Longrightarrow> sum_list (map h xs) \<in> \<nat> \<and> 0 \<le> (sum_list (map h xs) :: rat)"
  by (induction xs) (auto simp: Nats_nonneg)

lemma foldl_js_add_exact:
  assumes "\<forall>x \<in> set xs. v x = Finite (h x) \<and> h x \<in> \<nat>"
    and "a \<in> \<nat>" and "a + sum_list (map h xs) < 2 ^ 53"
  shows "foldl (\<lambda>sum x. js_add sum (v x)) (Finite a) xs = Finite (a + sum_list (map h xs))"
  using assms
proof (induction xs arbitrary: a)
  case Nil
  then show ?case by simp
next
  case (Cons x xs)
  have hx: "v x = Finite (h x)" "h x \<in> \<nat>" using Cons.prems(1) by simp_all
  have rest: "0 \<le> sum_list (map h xs)"
    using Cons.prems(1) sum_list_Nats [of xs h] by simp
  have ax: "a + h x \<in> \<nat>" using Cons.prems(2) hx(2) by (rule Nats_add)
  have "a + h x < 2 ^ 53" using Cons.prems(3) rest by simp
  with ax have step: "js_add (Finite a) (v x) = Finite (a + h x)"
    by (simp add: hx(1) round_double_Nats)
  have "foldl (\<lambda>sum x. js_add sum (v x)) (Finite (a + h x)) xs
      = Finite (a + h x + sum_list (map h xs))"
    using Cons.prems by (intro Cons.IH ax) (simp_all add: add.assoc)
  then show ?case by (simp add: step add.assoc)
qed

lemma sum_list_filter_le:
  "(\<forall>x \<in> set xs. 0 \<le> (h x :: rat)) \<Longrightarrow> sum_list (map h (filter P xs)) \<le> sum_list (map h xs)"
  by (induction xs) (auto intro: add_increasing)

lemma member_le_sum_list_nonneg:
  "(\<forall>x \<in> set xs. 0 \<le> (h x :: rat)) \<Longrightarrow> t \<in> set xs \<Longrightarrow> h t \<le> sum_list (map h xs)"
proof (induction xs)
  case Nil
  then show ?case by simp
next
  case (Cons x xs)
  have r: "0 \<le> sum_list (map h xs)"
    using Cons.prems(1) by (intro sum_list_nonneg) auto
  show ?case
  proof (cases "t = x")
    case True
    with r show ?thesis by simp
  next
    case False
    with Cons have "h t \<le> sum_list (map h xs)" by simp
    moreover have "0 \<le> h x" using Cons.prems(1) by simp
    ultimately show ?thesis by simp
  qed
qed

lemma amounts_exact:
  assumes "\<forall>t \<in> set ts. tx_amount t \<in> \<nat>" and "sum_list (map tx_amount ts) < 2 ^ 53"
  shows "foldl (\<lambda>sum t. js_add sum (Number (tx_amount t))) (Finite 0) (filter P ts)
    = Finite (sum_list (map tx_amount (filter P ts)))"
proof -
  have nn: "\<forall>t \<in> set ts. 0 \<le> tx_amount t" using assms(1) by (simp add: Nats_nonneg)
  have each: "\<And>t. t \<in> set ts \<Longrightarrow> tx_amount t < 2 ^ 53"
  proof -
    fix t assume t: "t \<in> set ts"
    have "tx_amount t \<le> sum_list (map tx_amount ts)"
      using nn t by (rule member_le_sum_list_nonneg)
    with assms(2) show "tx_amount t < 2 ^ 53" by simp
  qed
  have v: "\<forall>t \<in> set (filter P ts). Number (tx_amount t) = Finite (tx_amount t) \<and> tx_amount t \<in> \<nat>"
    using assms(1) each by (simp add: Number_def round_double_Nats)
  have "sum_list (map tx_amount (filter P ts)) \<le> sum_list (map tx_amount ts)"
    using nn by (rule sum_list_filter_le)
  with assms(2) have b: "0 + sum_list (map tx_amount (filter P ts)) < 2 ^ 53" by simp
  have "foldl (\<lambda>sum t. js_add sum (Number (tx_amount t))) (Finite 0) (filter P ts)
    = Finite (0 + sum_list (map tx_amount (filter P ts)))"
    using v Nats_0 b by (rule foldl_js_add_exact)
  then show ?thesis by simp
qed

subsection \<open>The monthly buckets and the totals over doubles\<close>

lemma addToMonth_double_keyed:
  assumes "distinct ks"
  shows "addToMonth_double
      (map (\<lambda>k. (k, \<lparr>name_double = k, income_double = fi k, expense_double = fe k\<rparr>)) ks) t
    = map (\<lambda>k. (k, \<lparr>name_double = k,
         income_double =
           (if tx_type t = ''income'' \<and> format_MMM_yyyy (tx_date t) = k
            then js_add (fi k) (Number (tx_amount t)) else fi k),
         expense_double =
           (if tx_type t = ''expense'' \<and> format_MMM_yyyy (tx_date t) = k
            then js_add (fe k) (Number (tx_amount t)) else fe k)\<rparr>)) ks"
proof (cases "format_MMM_yyyy (tx_date t) \<in> set ks")
  case False
  then show ?thesis
    by (auto simp: addToMonth_double_def Let_def map_of_keyed)
next
  case True
  then show ?thesis using assms
    by (auto simp: addToMonth_double_def Let_def map_of_keyed update_keyed)
qed

lemma foldl_addToMonth_double_keyed:
  "distinct ks \<Longrightarrow>
   foldl addToMonth_double
      (map (\<lambda>k. (k, \<lparr>name_double = k, income_double = fi k, expense_double = fe k\<rparr>)) ks) ts
    = map (\<lambda>k. (k, \<lparr>name_double = k,
         income_double =
           foldl (\<lambda>sum t. js_add sum (Number (tx_amount t))) (fi k)
             (filter (\<lambda>t. tx_type t = ''income'' \<and> format_MMM_yyyy (tx_date t) = k) ts),
         expense_double =
           foldl (\<lambda>sum t. js_add sum (Number (tx_amount t))) (fe k)
             (filter (\<lambda>t. tx_type t = ''expense'' \<and> format_MMM_yyyy (tx_date t) = k) ts)\<rparr>)) ks"
proof (induction ts arbitrary: fi fe)
  case Nil
  then show ?case by simp
next
  case (Cons t ts)
  show ?case
    apply (simp only: foldl_Cons addToMonth_double_keyed [OF Cons.prems] Cons.IH [OF Cons.prems])
    apply (rule map_cong [OF refl])
    apply simp
    done
qed

lemma foldl_initMonth_double:
  "distinct (map (\<lambda>i. format_MMM_yyyy (subMonths now i)) is) \<Longrightarrow>
   (\<lambda>i. format_MMM_yyyy (subMonths now i)) ` set is \<inter> fst ` set acc = {} \<Longrightarrow>
   foldl (initMonth_double now) acc is
     = acc @ map (\<lambda>i. (format_MMM_yyyy (subMonths now i),
                       \<lparr>name_double = format_MMM_yyyy (subMonths now i),
                        income_double = Finite 0, expense_double = Finite 0\<rparr>)) is"
proof (induction "is" arbitrary: acc)
  case Nil
  then show ?case by simp
next
  case (Cons i "is")
  let ?e = "(format_MMM_yyyy (subMonths now i),
      \<lparr>name_double = format_MMM_yyyy (subMonths now i),
       income_double = Finite 0, expense_double = Finite 0\<rparr>)"
  have a: "format_MMM_yyyy (subMonths now i) \<notin> fst ` set acc"
    using Cons.prems(2) by auto
  have step: "initMonth_double now acc i = acc @ [?e]"
    by (simp add: initMonth_double_def Let_def update_absent [OF a])
  have d: "distinct (map (\<lambda>i. format_MMM_yyyy (subMonths now i)) is)"
    using Cons.prems(1) by simp
  have e: "(\<lambda>i. format_MMM_yyyy (subMonths now i)) ` set is \<inter> fst ` set (acc @ [?e]) = {}"
    using Cons.prems by auto
  show ?case
    by (simp only: foldl_Cons step Cons.IH [OF d e]) simp
qed

lemma initMonths_double_keyed:
  "initMonths_double now
     = map (\<lambda>k. (k, \<lparr>name_double = k, income_double = Finite 0, expense_double = Finite 0\<rparr>))
         (window now)"
proof -
  have "distinct (map (\<lambda>i. format_MMM_yyyy (subMonths now i)) [5, 4, 3, 2, 1, 0])"
    using distinct_window [of now] by (simp only: window_def)
  then have "foldl (initMonth_double now) [] [5, 4, 3, 2, 1, 0]
     = [] @ map (\<lambda>i. (format_MMM_yyyy (subMonths now i),
                       \<lparr>name_double = format_MMM_yyyy (subMonths now i),
                        income_double = Finite 0, expense_double = Finite 0\<rparr>)) [5, 4, 3, 2, 1, 0]"
    by (rule foldl_initMonth_double) simp
  then show ?thesis by (simp add: initMonths_double_def window_def)
qed

lemma processMonthlyData_double_eq:
  "processMonthlyData_double now ts
     = map (\<lambda>k. \<lparr>name_double = k, income_double = monthIncome_double k ts,
                  expense_double = monthExpense_double k ts\<rparr>) (window now)"
proof -
  have f: "foldl addToMonth_double (initMonths_double now) ts
     = map (\<lambda>k. (k, \<lparr>name_double = k, income_double = monthIncome_double k ts,
                     expense_double = monthExpense_double k ts\<rparr>)) (window now)"
    by (simp only: initMonths_double_keyed foldl_addToMonth_double_keyed [OF distinct_window]
        monthIncome_double_def monthExpense_double_def)
  have "\<forall>k \<in> fst ` set (foldl addToMonth_double (initMonths_double now) ts). \<not> isArrayIndex k"
    by (auto simp: f image_iff window_not_index)
  then have "Object_entries (foldl addToMonth_double (initMonths_double now) ts)
      = foldl addToMonth_double (initMonths_double now) ts"
    by (rule Object_entries_no_index)
  then show ?thesis
    by (simp add: processMonthlyData_double_def Object_values_def f comp_def)
qed

subsection \<open>Evaluation of a rounding\<close>

lemma bitLength_numeral:
  "bitLength (numeral n) = 1 + bitLength (numeral n div 2)"
  by (subst bitLength.simps) simp

lemma bitLength_small: "bitLength 0 = 0" "bitLength 1 = 1" "bitLength (Suc 0) = 1"
  by (simp_all add: bitLength.simps)

lemma floor_rat_numeral:
  "\<lfloor>numeral a / numeral b :: rat\<rfloor> = numeral a div numeral b"
  "\<lfloor>1 / numeral b :: rat\<rfloor> = 1 div numeral b"
  using floor_divide_of_int_eq [of "numeral a" "numeral b", where ?'a = rat]
    floor_divide_of_int_eq [of 1 "numeral b", where ?'a = rat]
  by simp_all

lemma ceiling_rat_numeral:
  "\<lceil>numeral a / numeral b :: rat\<rceil> = - ((- numeral a) div numeral b)"
  "\<lceil>1 / numeral b :: rat\<rceil> = - ((- 1) div numeral b)"
  using ceiling_divide_eq_div [of "numeral a" "numeral b", where ?'a = rat]
    ceiling_divide_eq_div [of 1 "numeral b", where ?'a = rat]
  by simp_all

lemmas eval_double = round_double_def exponent_def pow2_def roundHalfEven_def Let_def
  bitLength_numeral bitLength_small floor_rat_numeral ceiling_rat_numeral

subsection \<open>The sum of the buckets against the totals\<close>

lemma buckets_exact:
  assumes w: "\<forall>t \<in> set ts. format_MMM_yyyy (tx_date t) \<in> set (window now)"
    and n: "\<forall>t \<in> set ts. tx_amount t \<in> \<nat>"
    and b: "sum_list (map tx_amount ts) < 2 ^ 53"
  shows "foldl (\<lambda>sum k. js_add sum
            (foldl (\<lambda>sum t. js_add sum (Number (tx_amount t))) (Finite 0)
               (filter (\<lambda>t. P t \<and> format_MMM_yyyy (tx_date t) = k) ts)))
          (Finite 0) (window now)
       = Finite (sum_list (map tx_amount (filter P ts)))"
proof -
  let ?h = "\<lambda>k. sum_list (map tx_amount (filter (\<lambda>t. P t \<and> format_MMM_yyyy (tx_date t) = k) ts))"
  let ?v = "\<lambda>k. foldl (\<lambda>sum t. js_add sum (Number (tx_amount t))) (Finite 0)
               (filter (\<lambda>t. P t \<and> format_MMM_yyyy (tx_date t) = k) ts)"
  have nn: "\<forall>t \<in> set ts. 0 \<le> tx_amount t" using n by (simp add: Nats_nonneg)
  have total: "sum_list (map ?h (window now)) = sum_list (map tx_amount (filter P ts))"
    using w by (rule sum_over_keys [OF distinct_window])
  have le: "sum_list (map tx_amount (filter P ts)) \<le> sum_list (map tx_amount ts)"
    using nn by (rule sum_list_filter_le)
  have each: "\<forall>k \<in> set (window now). ?v k = Finite (?h k) \<and> ?h k \<in> \<nat>"
  proof
    fix k
    have "?v k = Finite (?h k)" using n b by (rule amounts_exact)
    moreover have "?h k \<in> \<nat>"
      using n sum_list_Nats [of "filter (\<lambda>t. P t \<and> format_MMM_yyyy (tx_date t) = k) ts" tx_amount]
      by simp
    ultimately show "?v k = Finite (?h k) \<and> ?h k \<in> \<nat>" by simp
  qed
  have bound: "0 + sum_list (map ?h (window now)) < 2 ^ 53"
    using total le b by simp
  have "foldl (\<lambda>sum k. js_add sum (?v k)) (Finite 0) (window now)
      = Finite (0 + sum_list (map ?h (window now)))"
    using each _ bound by (rule foldl_js_add_exact) simp
  then show ?thesis by (simp only: total add_0)
qed

lemma round_double_examples:
  "round_double (1 / 10) = Finite (3602879701896397 / 36028797018963968)"
  "round_double (1 / 2) = Finite (1 / 2)"
  "round_double (2 ^ 53 + 1) = Finite (2 ^ 53)"
  "round_double (2 ^ 53 + 3) = Finite (2 ^ 53 + 4)"
  "round_double (- (2 ^ 53 + 3)) = Finite (- (2 ^ 53 + 4))"
  by (simp_all add: eval_double)

text \<open>
  With the additions exact, the grouping of the amounts does not matter: the buckets of
  \<open>processMonthlyData\<close> add up to the totals of \<open>calculateStats\<close> whenever every label
  is in the window.
\<close>

lemma exact_sums_over_window:
  assumes "\<forall>t \<in> set ts. format_MMM_yyyy (tx_date t) \<in> set (window now)"
  shows "sum_list (map income (processMonthlyData now ts)) = totalIncome (calculateStats ts)
    \<and> sum_list (map expense (processMonthlyData now ts)) = totalExpense (calculateStats ts)"
proof -
  have i: "sum_list (map (\<lambda>k. monthIncome k ts) (window now))
      = sum_list (map tx_amount (filter (\<lambda>t. tx_type t = ''income'') ts))"
    unfolding monthIncome_def using assms by (rule sum_over_keys [OF distinct_window])
  have e: "sum_list (map (\<lambda>k. monthExpense k ts) (window now))
      = sum_list (map tx_amount (filter (\<lambda>t. tx_type t = ''expense'') ts))"
    unfolding monthExpense_def using assms by (rule sum_over_keys [OF distinct_window])
  show ?thesis
    by (simp add: processMonthlyData_eq comp_def i e calculateStats_def Let_def foldl_plus_sum_list)
qed

text \<open>
  Claim C4, as amended. The month of a transaction is the label that the code computes from
  \<open>new Date(transaction.date)\<close> in the viewer's local time. For every transaction list in
  which every such label is one of the six labels of the window, and whose amounts are whole
  numbers with a total below \<open>2 ^ 53\<close> (so that no addition rounds), the sum of the incomes
  of the six buckets of \<open>processMonthlyData\<close>, added as doubles, is the total income of
  \<open>calculateStats\<close>, and the sum of the expenses of the buckets is its total expense; both
  totals are the exact sums. With fractional amounts the two sides add the same doubles in
  different groupings and can differ in the last place, and west of UTC the label of a
  transaction dated on the first day of a month is that of the month before.
\<close>

theorem monthly_sums_equal_totals:
  assumes "\<forall>t \<in> set ts. format_MMM_yyyy (tx_date t) \<in> set (window now)"
    and "\<forall>t \<in> set ts. tx_amount t \<in> \<nat>"
    and "sum_list (map tx_amount ts) < 2 ^ 53"
  shows "sumIncome_double (processMonthlyData_double now ts) = totalIncome_double ts
    \<and> sumExpense_double (processMonthlyData_double now ts) = totalExpense_double ts
    \<and> totalIncome_double ts = Finite (totalIncome (calculateStats ts))
    \<and> totalExpense_double ts = Finite (totalExpense (calculateStats ts))"
proof -
  have ti: "totalIncome_double ts
      = Finite (sum_list (map tx_amount (filter (\<lambda>t. tx_type t = ''income'') ts)))"
    unfolding totalIncome_double_def using assms(2,3) by (rule amounts_exact)
  have te: "totalExpense_double ts
      = Finite (sum_list (map tx_amount (filter (\<lambda>t. tx_type t = ''expense'') ts)))"
    unfolding totalExpense_double_def using assms(2,3) by (rule amounts_exact)
  have bi: "sumIncome_double (processMonthlyData_double now ts)
      = Finite (sum_list (map tx_amount (filter (\<lambda>t. tx_type t = ''income'') ts)))"
    using buckets_exact [OF assms, of "\<lambda>t. tx_type t = ''income''"]
    by (simp add: sumIncome_double_def processMonthlyData_double_eq foldl_map
        monthIncome_double_def)
  have be: "sumExpense_double (processMonthlyData_double now ts)
      = Finite (sum_list (map tx_amount (filter (\<lambda>t. tx_type t = ''expense'') ts)))"
    using buckets_exact [OF assms, of "\<lambda>t. tx_type t = ''expense''"]
    by (simp add: sumExpense_double_def processMonthlyData_double_eq foldl_map
        monthExpense_double_def)
  have ci: "totalIncome (calculateStats ts)
      = sum_list (map tx_amount (filter (\<lambda>t. tx_type t = ''income'') ts))"
    and ce: "totalExpense (calculateStats ts)
      = sum_list (map tx_amount (filter (\<lambda>t. tx_type t = ''expense'') ts))"
    by (simp_all add: calculateStats_def Let_def foldl_plus_sum_list)
  show ?thesis
    by (simp only: ti te bi be ci ce)
qed

theorem monthly_sums_equal_totals_witness:
  "set (map (\<lambda>t. format_MMM_yyyy (tx_date t))
        [\<lparr>tx_type = ''income'', tx_amount = 200,
          tx_date = \<lparr>ld_year = 2024, ld_month = Mar, ld_day = 1\<rparr>, tx_category = None\<rparr>,
         \<lparr>tx_type = ''income'', tx_amount = 50,
          tx_date = \<lparr>ld_year = 2023, ld_month = Oct, ld_day = 1\<rparr>, tx_category = None\<rparr>,
         \<lparr>tx_type = ''expense'', tx_amount = 75,
          tx_date = \<lparr>ld_year = 2024, ld_month = Feb, ld_day = 29\<rparr>, tx_category = None\<rparr>])
     \<subseteq> set (window \<lparr>ld_year = 2024, ld_month = Mar, ld_day = 31\<rparr>)
   \<and> sumIncome_double (processMonthlyData_double \<lparr>ld_year = 2024, ld_month = Mar, ld_day = 31\<rparr>
        [\<lparr>tx_type = ''income'', tx_amount = 200,
          tx_date = \<lparr>ld_year = 2024, ld_month = Mar, ld_day = 1\<rparr>, tx_category = None\<rparr>,
         \<lparr>tx_type = ''income'', tx_amount = 50,
          tx_date = \<lparr>ld_year = 2023, ld_month = Oct, ld_day = 1\<rparr>, tx_category = None\<rparr>,
         \<lparr>tx_type = ''expense'', tx_amount = 75,
          tx_date = \<lparr>ld_year = 2024, ld_month = Feb, ld_day = 29\<rparr>, tx_category = None\<rparr>])
     = Finite 250
   \<and> totalIncome_double
        [\<lparr>tx_type = ''income'', tx_amount = 200,
          tx_date = \<lparr>ld_year = 2024, ld_month = Mar, ld_day = 1\<rparr>, tx_category = None\<rparr>,
         \<lparr>tx_type = ''income'', tx_amount = 50,
          tx_date = \<lparr>ld_year = 2023, ld_month = Oct, ld_day = 1\<rparr>, tx_category = None\<rparr>,
         \<lparr>tx_type = ''expense'', tx_amount = 75,
          tx_date = \<lparr>ld_year = 2024, ld_month = Feb, ld_day = 29\<rparr>, tx_category = None\<rparr>]
     = Finite 250
   \<and> sumExpense_double (processMonthlyData_double \<lparr>ld_year = 2024, ld_month = Mar, ld_day = 31\<rparr>
        [\<lparr>tx_type = ''income'', tx_amount = 200,
          tx_date = \<lparr>ld_year = 2024, ld_month = Mar, ld_day = 1\<rparr>, tx_category = None\<rparr>,
         \<lparr>tx_type = ''income'', tx_amount = 50,
          tx_date = \<lparr>ld_year = 2023, ld_month = Oct, ld_day = 1\<rparr>, tx_category = None\<rparr>,
         \<lparr>tx_type = ''expense'', tx_amount = 75,
          tx_date = \<lparr>ld_year = 2024, ld_month = Feb, ld_day = 29\<rparr>, tx_category = None\<rparr>])
     = Finite 75
   \<and> totalExpense_double
        [\<lparr>tx_type = ''income'', tx_amount = 200,
          tx_date = \<lparr>ld_year = 2024, ld_month = Mar, ld_day = 1\<rparr>, tx_category = None\<rparr>,
         \<lparr>tx_type = ''income'', tx_amount = 50,
          tx_date = \<lparr>ld_year = 2023, ld_month = Oct, ld_day = 1\<rparr>, tx_category = None\<rparr>,
         \<lparr>tx_type = ''expense'', tx_amount = 75,
          tx_date = \<lparr>ld_year = 2024, ld_month = Feb, ld_day = 29\<rparr>, tx_category = None\<rparr>]
     = Finite 75"
proof -
  let ?now = "\<lparr>ld_year = 2024, ld_month = Mar, ld_day = 31\<rparr>"
  let ?ts = "[\<lparr>tx_type = ''income'', tx_amount = 200,
          tx_date = \<lparr>ld_year = 2024, ld_month = Mar, ld_day = 1\<rparr>, tx_category = None\<rparr>,
         \<lparr>tx_type = ''income'', tx_amount = 50,
          tx_date = \<lparr>ld_year = 2023, ld_month = Oct, ld_day = 1\<rparr>, tx_category = None\<rparr>,
         \<lparr>tx_type = ''expense'', tx_amount = 75,
          tx_date = \<lparr>ld_year = 2024, ld_month = Feb, ld_day = 29\<rparr>, tx_category = None\<rparr>]"
  have h: "\<forall>t \<in> set ?ts. format_MMM_yyyy (tx_date t) \<in> set (window ?now)"
    by (simp add: eval_dates)
  have n: "\<forall>t \<in> set ?ts. tx_amount t \<in> \<nat>"
    by simp
  have b: "sum_list (map tx_amount ?ts) < 2 ^ 53"
    by simp
  have s: "totalIncome (calculateStats ?ts) = 250" "totalExpense (calculateStats ?ts) = 75"
    by (simp_all add: calculateStats_def Let_def)
  have h': "set (map (\<lambda>t. format_MMM_yyyy (tx_date t)) ?ts) \<subseteq> set (window ?now)"
    using h by (simp only: set_map image_subset_iff)
  from monthly_sums_equal_totals [OF h n b] s h' show ?thesis
    by (simp only:)
qed

theorem monthly_sums_counterexample:
  "set (map (\<lambda>t. format_MMM_yyyy (tx_date t))
        [\<lparr>tx_type = ''income'', tx_amount = 1 / 10,
          tx_date = \<lparr>ld_year = 2024, ld_month = Feb, ld_day = 10\<rparr>, tx_category = None\<rparr>,
         \<lparr>tx_type = ''income'', tx_amount = 1 / 5,
          tx_date = \<lparr>ld_year = 2024, ld_month = Mar, ld_day = 5\<rparr>, tx_category = None\<rparr>,
         \<lparr>tx_type = ''income'', tx_amount = 3 / 10,
          tx_date = \<lparr>ld_year = 2024, ld_month = Mar, ld_day = 20\<rparr>, tx_category = None\<rparr>])
     \<subseteq> set (window \<lparr>ld_year = 2024, ld_month = Mar, ld_day = 31\<rparr>)
   \<and> sumIncome_double (processMonthlyData_double \<lparr>ld_year = 2024, ld_month = Mar, ld_day = 31\<rparr>
        [\<lparr>tx_type = ''income'', tx_amount = 1 / 10,
          tx_date = \<lparr>ld_year = 2024, ld_month = Feb, ld_day = 10\<rparr>, tx_category = None\<rparr>,
         \<lparr>tx_type = ''income'', tx_amount = 1 / 5,
          tx_date = \<lparr>ld_year = 2024, ld_month = Mar, ld_day = 5\<rparr>, tx_category = None\<rparr>,
         \<lparr>tx_type = ''income'', tx_amount = 3 / 10,
          tx_date = \<lparr>ld_year = 2024, ld_month = Mar, ld_day = 20\<rparr>, tx_category = None\<rparr>])
     = Finite (5404319552844595 / 9007199254740992)
   \<and> totalIncome_double
        [\<lparr>tx_type = ''income'', tx_amount = 1 / 10,
          tx_date = \<lparr>ld_year = 2024, ld_month = Feb, ld_day = 10\<rparr>, tx_category = None\<rparr>,
         \<lparr>tx_type = ''income'', tx_amount = 1 / 5,
          tx_date = \<lparr>ld_year = 2024, ld_month = Mar, ld_day = 5\<rparr>, tx_category = None\<rparr>,
         \<lparr>tx_type = ''income'', tx_amount = 3 / 10,
          tx_date = \<lparr>ld_year = 2024, ld_month = Mar, ld_day = 20\<rparr>, tx_category = None\<rparr>]
     = Finite (1351079888211149 / 2251799813685248)
   \<and> sumIncome_double (processMonthlyData_double \<lparr>ld_year = 2024, ld_month = Mar, ld_day = 31\<rparr>
        [\<lparr>tx_type = ''income'', tx_amount = 1 / 10,
          tx_date = \<lparr>ld_year = 2024, ld_month = Feb, ld_day = 10\<rparr>, tx_category = None\<rparr>,
         \<lparr>tx_type = ''income'', tx_amount = 1 / 5,
          tx_date = \<lparr>ld_year = 2024, ld_month = Mar, ld_day = 5\<rparr>, tx_category = None\<rparr>,
         \<lparr>tx_type = ''income'', tx_amount = 3 / 10,
          tx_date = \<lparr>ld_year = 2024, ld_month = Mar, ld_day = 20\<rparr>, tx_category = None\<rparr>])
     \<noteq> totalIncome_double
        [\<lparr>tx_type = ''income'', tx_amount = 1 / 10,
          tx_date = \<lparr>ld_year = 2024, ld_month = Feb, ld_day = 10\<rparr>, tx_category = None\<rparr>,
         \<lparr>tx_type = ''income'', tx_amount = 1 / 5,
          tx_date = \<lparr>ld_year = 2024, ld_month = Mar, ld_day = 5\<rparr>, tx_category = None\<rparr>,
         \<lparr>tx_type = ''income'', tx_amount = 3 / 10,
          tx_date = \<lparr>ld_year = 2024, ld_month = Mar, ld_day = 20\<rparr>, tx_category = None\<rparr>]
   \<and> format_MMM_yyyy \<lparr>ld_year = 2023, ld_month = Oct, ld_day = 1\<rparr>
       \<in> set (window \<lparr>ld_year = 2024, ld_month = Mar, ld_day = 31\<rparr>)
   \<and> new_Date (- 180) \<lparr>ld_year = 2023, ld_month = Oct, ld_day = 1\<rparr>
       = \<lparr>ld_year = 2023, ld_month = Sep, ld_day = 30\<rparr>
   \<and> sumIncome_double (processMonthlyData_double \<lparr>ld_year = 2024, ld_month = Mar, ld_day = 31\<rparr>
        [\<lparr>tx_type = ''income'', tx_amount = 100,
          tx_date = new_Date (- 180) \<lparr>ld_year = 2023, ld_month = Oct, ld_day = 1\<rparr>,
          tx_category = None\<rparr>])
     = Finite 0
   \<and> totalIncome_double
        [\<lparr>tx_type = ''income'', tx_amount = 100,
          tx_date = new_Date (- 180) \<lparr>ld_year = 2023, ld_month = Oct, ld_day = 1\<rparr>,
          tx_category = None\<rparr>]
     = Finite 100"
proof -
  let ?now = "\<lparr>ld_year = 2024, ld_month = Mar, ld_day = 31\<rparr>"
  let ?ts = "[\<lparr>tx_type = ''income'', tx_amount = 1 / 10,
          tx_date = \<lparr>ld_year = 2024, ld_month = Feb, ld_day = 10\<rparr>, tx_category = None\<rparr>,
         \<lparr>tx_type = ''income'', tx_amount = 1 / 5,
          tx_date = \<lparr>ld_year = 2024, ld_month = Mar, ld_day = 5\<rparr>, tx_category = None\<rparr>,
         \<lparr>tx_type = ''income'', tx_amount = 3 / 10,
          tx_date = \<lparr>ld_year = 2024, ld_month = Mar, ld_day = 20\<rparr>, tx_category = None\<rparr>]"
  let ?t = "\<lparr>tx_type = ''income'', tx_amount = 100,
          tx_date = new_Date (- 180) \<lparr>ld_year = 2023, ld_month = Oct, ld_day = 1\<rparr>,
          tx_category = None\<rparr>"
  have w: "window ?now
      = [''Oct 2023'', ''Nov 2023'', ''Dec 2023'', ''Jan 2024'', ''Feb 2024'', ''Mar 2024'']"
    by (simp add: eval_dates)
  have l: "format_MMM_yyyy \<lparr>ld_year = 2024, ld_month = Feb, ld_day = 10\<rparr> = ''Feb 2024''"
    "format_MMM_yyyy \<lparr>ld_year = 2024, ld_month = Mar, ld_day = 5\<rparr> = ''Mar 2024''"
    "format_MMM_yyyy \<lparr>ld_year = 2024, ld_month = Mar, ld_day = 20\<rparr> = ''Mar 2024''"
    "format_MMM_yyyy \<lparr>ld_year = 2023, ld_month = Oct, ld_day = 1\<rparr> = ''Oct 2023''"
    "format_MMM_yyyy \<lparr>ld_year = 2023, ld_month = Sep, ld_day = 30\<rparr> = ''Sep 2023''"
    by (simp_all add: eval_dates)
  have n: "Number (1 / 10) = Finite (3602879701896397 / 36028797018963968)"
    "Number (1 / 5) = Finite (3602879701896397 / 18014398509481984)"
    "Number (3 / 10) = Finite (5404319552844595 / 18014398509481984)"
    "Number 100 = Finite 100"
    by (simp_all add: Number_def eval_double)
  have a0: "\<And>x. js_add (Finite 0) (Finite x) = round_double x"
    "js_add (Finite 0) (Finite 0) = Finite 0"
    by (simp_all add: round_double_def)
  have r: "round_double (3602879701896397 / 36028797018963968)
      = Finite (3602879701896397 / 36028797018963968)"
    "round_double (3602879701896397 / 18014398509481984)
      = Finite (3602879701896397 / 18014398509481984)"
    "round_double 100 = Finite 100"
    "round_double 0 = Finite 0"
    by (simp_all add: eval_double)
  have s1: "js_add (Finite (3602879701896397 / 18014398509481984))
       (Finite (5404319552844595 / 18014398509481984)) = Finite (1 / 2)"
    by (simp add: eval_double)
  have s2: "js_add (Finite (3602879701896397 / 36028797018963968)) (Finite (1 / 2))
      = Finite (5404319552844595 / 9007199254740992)"
    by (simp add: eval_double)
  have s3: "js_add (Finite (3602879701896397 / 36028797018963968))
       (Finite (3602879701896397 / 18014398509481984))
      = Finite (1351079888211149 / 4503599627370496)"
    by (simp add: eval_double)
  have s4: "js_add (Finite (1351079888211149 / 4503599627370496))
       (Finite (5404319552844595 / 18014398509481984))
      = Finite (1351079888211149 / 2251799813685248)"
    by (simp add: eval_double)
  have d: "new_Date (- 180) \<lparr>ld_year = 2023, ld_month = Oct, ld_day = 1\<rparr>
      = \<lparr>ld_year = 2023, ld_month = Sep, ld_day = 30\<rparr>"
    by (simp add: new_Date_def previousDay_def Let_def months_def)
  have c1: "set (map (\<lambda>t. format_MMM_yyyy (tx_date t)) ?ts) \<subseteq> set (window ?now)"
    by (simp add: w l)
  have c2: "sumIncome_double (processMonthlyData_double ?now ?ts)
      = Finite (5404319552844595 / 9007199254740992)"
    by (simp add: processMonthlyData_double_eq w l sumIncome_double_def monthIncome_double_def
        n a0 r s1 s2 del: js_add.simps)
  have c3: "totalIncome_double ?ts = Finite (1351079888211149 / 2251799813685248)"
    by (simp add: totalIncome_double_def n a0 r s3 s4 del: js_add.simps)
  have c4: "sumIncome_double (processMonthlyData_double ?now ?ts) \<noteq> totalIncome_double ?ts"
    by (simp only: c2 c3) simp
  have c5: "format_MMM_yyyy \<lparr>ld_year = 2023, ld_month = Oct, ld_day = 1\<rparr> \<in> set (window ?now)"
    by (simp only: w l) simp
  have c6: "sumIncome_double (processMonthlyData_double ?now [?t]) = Finite 0"
    by (simp only: d)
      (simp add: processMonthlyData_double_eq w l sumIncome_double_def monthIncome_double_def
        a0 r del: js_add.simps)
  have c7: "totalIncome_double [?t] = Finite 100"
    by (simp add: totalIncome_double_def n a0 r del: js_add.simps)
  show ?thesis
    by (intro conjI) (rule c1 c2 c3 c4 c5 d c6 c7)+
qed

subsection \<open>CSV export\<close>

lemma split_no_sep: "c \<notin> set x \<Longrightarrow> split c x = [x]"
  by (induction x) auto

lemma split_append_sep: "c \<notin> set x \<Longrightarrow> split c (x @ c # rest) = x # split c rest"
  by (induction x) auto

lemma split_join:
  "(\<forall>x \<in> set (x0 # xs). c \<notin> set x) \<Longrightarrow> split c (join [c] (x0 # xs)) = x0 # xs"
proof (induction xs arbitrary: x0)
  case Nil
  then show ?case by (simp add: split_no_sep)
next
  case (Cons y ys)
  then have "split c (join [c] (y # ys)) = y # ys" by simp
  with Cons.prems show ?case by (simp add: split_append_sep)
qed

lemma showNat_digits: "set (showNat n) \<subseteq> set ''0123456789''"
proof (induction n rule: showNat.induct)
  case (1 n)
  have d: "\<And>i. i < 10 \<Longrightarrow> ''0123456789'' ! i \<in> set ''0123456789''"
    by (rule nth_mem) simp
  show ?case
  proof (cases "n < 10")
    case True
    with d [of n] show ?thesis by (subst showNat.simps) simp
  next
    case False
    with 1 d [of "n mod 10"] show ?thesis by (subst showNat.simps) simp
  qed
qed

lemma addLeadingZeros_digits: "set (addLeadingZeros n l) \<subseteq> set ''0123456789''"
  using showNat_digits [of n] by (auto simp: addLeadingZeros_def)

lemma label_chars:
  "CHR '','' \<notin> set (format_MMM_yyyy d)" "CHR 0x0A \<notin> set (format_MMM_yyyy d)"
  using addLeadingZeros_digits [of "nat (if ld_year d > 0 then ld_year d else 1 - ld_year d)" 4]
  by (cases "ld_month d"; auto simp: format_MMM_yyyy_def format_yyyy_def)+

lemma window_chars:
  "k \<in> set (window now) \<Longrightarrow> CHR '','' \<notin> set k \<and> CHR 0x0A \<notin> set k"
  by (auto simp: window_def label_chars)

lemma set_join: "set (join sep xs) \<subseteq> set sep \<union> \<Union> (set ` set xs)"
  by (induction sep xs rule: join.induct) auto

lemma csvRow_fields:
  assumes "\<And>x. CHR '','' \<notin> set (numberToString x)"
    and "CHR '','' \<notin> set (name row)"
  shows "split (CHR '','') (csvRow numberToString row)
    = [name row, numberToString (income row), numberToString (expense row),
       numberToString (income row - expense row)]"
  unfolding csvRow_def using assms by (intro split_join) simp

lemma csvRow_one_line:
  assumes "\<And>x. CHR 0x0A \<notin> set (numberToString x)"
    and "CHR 0x0A \<notin> set (name row)"
  shows "CHR 0x0A \<notin> set (csvRow numberToString row)"
  using set_join [of "'',''" "[name row, numberToString (income row),
      numberToString (expense row), numberToString (income row - expense row)]"] assms
  by (auto simp: csvRow_def)

lemma bucket_names:
  "row \<in> set (processMonthlyData now ts) \<Longrightarrow> name row \<in> set (window now)"
  by (auto simp: processMonthlyData_eq)

lemma exportCSV_lines:
  assumes "\<And>x. CHR '','' \<notin> set (numberToString x)"
    and "\<And>x. CHR 0x0A \<notin> set (numberToString x)"
    and "list_all (\<lambda>row. CHR '','' \<notin> set (name row) \<and> CHR 0x0A \<notin> set (name row)) rows"
  shows "split (CHR 0x0A) (dl_content (exportCSV numberToString today rows))
       = ''Month,Income,Expense,Net'' # map (csvRow numberToString) rows"
    and "map (split (CHR '','')) (split (CHR 0x0A) (dl_content (exportCSV numberToString today rows)))
       = [''Month'', ''Income'', ''Expense'', ''Net'']
         # map (\<lambda>row. [name row, numberToString (income row), numberToString (expense row),
                        numberToString (income row - expense row)]) rows"
proof -
  let ?lines = "''Month,Income,Expense,Net'' # map (csvRow numberToString) rows"
  have names: "\<And>row. row \<in> set rows \<Longrightarrow>
      CHR '','' \<notin> set (name row) \<and> CHR 0x0A \<notin> set (name row)"
    using assms(3) by (simp add: list_all_iff)
  have content: "dl_content (exportCSV numberToString today rows) = join [CHR 0x0A] ?lines"
    by (simp add: exportCSV_def Let_def)
  have "\<forall>l \<in> set ?lines. CHR 0x0A \<notin> set l"
    using names assms(2) by (auto simp: csvRow_one_line)
  then have lines: "split (CHR 0x0A) (join [CHR 0x0A] ?lines) = ?lines"
    by (rule split_join)
  have fields: "map (split (CHR '','')) (map (csvRow numberToString) rows)
      = map (\<lambda>row. [name row, numberToString (income row), numberToString (expense row),
                     numberToString (income row - expense row)]) rows"
    using names assms(1) by (simp add: csvRow_fields)
  have header: "split (CHR '','') ''Month,Income,Expense,Net''
      = [''Month'', ''Income'', ''Expense'', ''Net'']"
    by simp
  show "split (CHR 0x0A) (dl_content (exportCSV numberToString today rows)) = ?lines"
    by (simp only: content lines)
  show "map (split (CHR '','')) (split (CHR 0x0A) (dl_content (exportCSV numberToString today rows)))
       = [''Month'', ''Income'', ''Expense'', ''Net'']
         # map (\<lambda>row. [name row, numberToString (income row), numberToString (expense row),
                        numberToString (income row - expense row)]) rows"
    by (simp only: content lines list.map fields header)
qed

lemma bucket_names_clean:
  "list_all (\<lambda>row. CHR '','' \<notin> set (name row) \<and> CHR 0x0A \<notin> set (name row))
     (processMonthlyData now ts)"
  using bucket_names window_chars by (simp add: list_all_iff) blast

text \<open>
  Claim C5, as amended. The CSV export of a monthly aggregate view is a text of lines
  separated by newlines whose first line is \<open>Month,Income,Expense,Net\<close>, followed by
  exactly one line per bucket of the view, in the view's order; the fields of a row are
  the bucket's name, income, expense and income minus expense, separated by commas. When
  the fetch has delivered transactions the view is the result of the monthly bucketing:
  6 data rows, in chronological order. When it has delivered none the view is empty and
  the export is the header alone. The download has type \<open>text/csv\<close> and the name
  \<open>financial-report-<yyyy-MM-dd>.csv\<close> for the current date. The conversion of a number
  to text is a parameter; as in JavaScript, it produces neither a comma nor a newline.
\<close>

theorem exportCSV_rows:
  assumes "\<And>x. CHR '','' \<notin> set (numberToString x)"
    and "\<And>x. CHR 0x0A \<notin> set (numberToString x)"
  shows "(list_all (\<lambda>row. CHR '','' \<notin> set (name row) \<and> CHR 0x0A \<notin> set (name row))
            monthlyData \<longrightarrow>
          split (CHR 0x0A) (dl_content (exportCSV numberToString today monthlyData))
            = ''Month,Income,Expense,Net'' # map (csvRow numberToString) monthlyData
          \<and> map (split (CHR '',''))
              (split (CHR 0x0A) (dl_content (exportCSV numberToString today monthlyData)))
            = [''Month'', ''Income'', ''Expense'', ''Net'']
              # map (\<lambda>row. [name row, numberToString (income row),
                             numberToString (expense row),
                             numberToString (income row - expense row)]) monthlyData)
    \<and> split (CHR 0x0A)
           (dl_content (exportCSV numberToString today (fetchReportData now data)))
       = ''Month,Income,Expense,Net''
         # map (csvRow numberToString) (fetchReportData now data)
    \<and> map (split (CHR '',''))
         (split (CHR 0x0A)
            (dl_content (exportCSV numberToString today (fetchReportData now data))))
       = [''Month'', ''Income'', ''Expense'', ''Net'']
         # map (\<lambda>row. [name row, numberToString (income row), numberToString (expense row),
                        numberToString (income row - expense row)])
             (fetchReportData now data)
    \<and> fetchReportData now (Some ts) = processMonthlyData now ts
    \<and> length (split (CHR 0x0A)
         (dl_content (exportCSV numberToString today (fetchReportData now (Some ts))))) = 7
    \<and> map name (fetchReportData now (Some ts)) = window now
    \<and> fetchReportData now None = []
    \<and> split (CHR 0x0A)
         (dl_content (exportCSV numberToString today (fetchReportData now None)))
       = [''Month,Income,Expense,Net'']
    \<and> dl_type (exportCSV numberToString today monthlyData) = ''text/csv''
    \<and> dl_name (exportCSV numberToString today monthlyData)
       = ''financial-report-'' @ format_yyyy_MM_dd today @ ''.csv''"
proof -
  note general = exportCSV_lines [where numberToString = numberToString, OF assms]
  have clean: "list_all (\<lambda>row. CHR '','' \<notin> set (name row) \<and> CHR 0x0A \<notin> set (name row))
      (fetchReportData now data)"
    by (cases data) (simp_all add: fetchReportData_def bucket_names_clean)
  note view = general [where today = today, OF clean]
  have some: "fetchReportData now (Some ts) = processMonthlyData now ts"
    by (simp add: fetchReportData_def)
  have none: "fetchReportData now None = []"
    by (simp add: fetchReportData_def)
  note buckets = general [where today = today, OF bucket_names_clean [of now ts]]
  have len: "length (split (CHR 0x0A)
      (dl_content (exportCSV numberToString today (fetchReportData now (Some ts))))) = 7"
    by (simp only: some buckets(1)) (simp add: processMonthlyData_eq window_def)
  have nm: "map name (fetchReportData now (Some ts)) = window now"
    by (simp add: some processMonthlyData_eq comp_def)
  have empty: "split (CHR 0x0A)
         (dl_content (exportCSV numberToString today (fetchReportData now None)))
       = [''Month,Income,Expense,Net'']"
    using general(1) [where rows = "[]" and today = today] by (simp add: none)
  have ty: "dl_type (exportCSV numberToString today monthlyData) = ''text/csv''"
    by (simp add: exportCSV_def Let_def)
  have fn: "dl_name (exportCSV numberToString today monthlyData)
       = ''financial-report-'' @ format_yyyy_MM_dd today @ ''.csv''"
    by (simp add: exportCSV_def Let_def)
  show ?thesis
    using general [where rows = monthlyData and today = today] view some len nm none empty ty fn
    by (intro conjI impI) assumption+
qed

lemma example_buckets:
  "processMonthlyData \<lparr>ld_year = 2024, ld_month = Mar, ld_day = 31\<rparr>
     [\<lparr>tx_type = ''income'', tx_amount = 200,
       tx_date = \<lparr>ld_year = 2024, ld_month = Mar, ld_day = 1\<rparr>, tx_category = None\<rparr>,
      \<lparr>tx_type = ''expense'', tx_amount = 75,
       tx_date = \<lparr>ld_year = 2024, ld_month = Feb, ld_day = 29\<rparr>, tx_category = None\<rparr>]
   = [\<lparr>name = ''Oct 2023'', income = 0, expense = 0\<rparr>,
      \<lparr>name = ''Nov 2023'', income = 0, expense = 0\<rparr>,
      \<lparr>name = ''Dec 2023'', income = 0, expense = 0\<rparr>,
      \<lparr>name = ''Jan 2024'', income = 0, expense = 0\<rparr>,
      \<lparr>name = ''Feb 2024'', income = 0, expense = 75\<rparr>,
      \<lparr>name = ''Mar 2024'', income = 200, expense = 0\<rparr>]"
  by (simp add: processMonthlyData_eq monthIncome_def monthExpense_def eval_dates)

theorem exportCSV_rows_witness:
  "map (split (CHR '',''))
     (split (CHR 0x0A)
        (dl_content
           (exportCSV (\<lambda>x. if x < 0 then ''-'' @ showNat (nat \<lfloor>- x\<rfloor>) else showNat (nat \<lfloor>x\<rfloor>))
              \<lparr>ld_year = 2024, ld_month = Apr, ld_day = 2\<rparr>
              (fetchReportData \<lparr>ld_year = 2024, ld_month = Mar, ld_day = 31\<rparr>
                 (Some [\<lparr>tx_type = ''income'', tx_amount = 200,
                       tx_date = \<lparr>ld_year = 2024, ld_month = Mar, ld_day = 1\<rparr>,
                       tx_category = None\<rparr>,
                      \<lparr>tx_type = ''expense'', tx_amount = 75,
                       tx_date = \<lparr>ld_year = 2024, ld_month = Feb, ld_day = 29\<rparr>,
                       tx_category = None\<rparr>])))))
   = [[''Month'', ''Income'', ''Expense'', ''Net''],
      [''Oct 2023'', ''0'', ''0'', ''0''],
      [''Nov 2023'', ''0'', ''0'', ''0''],
      [''Dec 2023'', ''0'', ''0'', ''0''],
      [''Jan 2024'', ''0'', ''0'', ''0''],
      [''Feb 2024'', ''0'', ''75'', ''-75''],
      [''Mar 2024'', ''200'', ''0'', ''200'']]
   \<and> split (CHR 0x0A)
       (dl_content
          (exportCSV (\<lambda>x. if x < 0 then ''-'' @ showNat (nat \<lfloor>- x\<rfloor>) else showNat (nat \<lfloor>x\<rfloor>))
             \<lparr>ld_year = 2024, ld_month = Apr, ld_day = 2\<rparr>
             (fetchReportData \<lparr>ld_year = 2024, ld_month = Mar, ld_day = 31\<rparr> None)))
     = [''Month,Income,Expense,Net'']
   \<and> dl_name
       (exportCSV (\<lambda>x. if x < 0 then ''-'' @ showNat (nat \<lfloor>- x\<rfloor>) else showNat (nat \<lfloor>x\<rfloor>))
          \<lparr>ld_year = 2024, ld_month = Apr, ld_day = 2\<rparr>
          (fetchReportData \<lparr>ld_year = 2024, ld_month = Mar, ld_day = 31\<rparr>
             (Some [\<lparr>tx_type = ''income'', tx_amount = 200,
                       tx_date = \<lparr>ld_year = 2024, ld_month = Mar, ld_day = 1\<rparr>,
                       tx_category = None\<rparr>,
                      \<lparr>tx_type = ''expense'', tx_amount = 75,
                       tx_date = \<lparr>ld_year = 2024, ld_month = Feb, ld_day = 29\<rparr>,
                       tx_category = None\<rparr>])))
     = ''financial-report-2024-04-02.csv''"
proof -
  let ?N = "\<lambda>x::rat. if x < 0 then ''-'' @ showNat (nat \<lfloor>- x\<rfloor>) else showNat (nat \<lfloor>x\<rfloor>)"
  let ?today = "\<lparr>ld_year = 2024, ld_month = Apr, ld_day = 2\<rparr>"
  let ?now = "\<lparr>ld_year = 2024, ld_month = Mar, ld_day = 31\<rparr>"
  let ?ts = "[\<lparr>tx_type = ''income'', tx_amount = 200,
                       tx_date = \<lparr>ld_year = 2024, ld_month = Mar, ld_day = 1\<rparr>,
                       tx_category = None\<rparr>,
                      \<lparr>tx_type = ''expense'', tx_amount = 75,
                       tx_date = \<lparr>ld_year = 2024, ld_month = Feb, ld_day = 29\<rparr>,
                       tx_category = None\<rparr>]"
  have h1: "\<And>x. CHR '','' \<notin> set (?N x)"
    using showNat_digits by auto
  have h2: "\<And>x. CHR 0x0A \<notin> set (?N x)"
    using showNat_digits by auto
  have d: "format_yyyy_MM_dd ?today = ''2024-04-02''"
    by (simp add: eval_dates)
  note r = exportCSV_rows [where numberToString = ?N and today = ?today and now = ?now
      and ts = ?ts and data = "Some ?ts" and monthlyData = "fetchReportData ?now (Some ?ts)",
      OF h1 h2, THEN conjunct2, THEN conjunct2]
  note fields = r [THEN conjunct1]
  note delivered = r [THEN conjunct2, THEN conjunct1]
  note empty = r [THEN conjunct2, THEN conjunct2, THEN conjunct2, THEN conjunct2,
      THEN conjunct2, THEN conjunct1]
  note filename = r [THEN conjunct2, THEN conjunct2, THEN conjunct2, THEN conjunct2,
      THEN conjunct2, THEN conjunct2, THEN conjunct2]
  from fields empty filename show ?thesis
    by (simp only: delivered example_buckets d) (simp add: showNat_numeral showNat_small)
qed

text \<open>
  The claim as it was stated, 6 data rows for every view, fails on the view of a page
  whose fetch has delivered no transactions: the export is the header alone.
\<close>

theorem exportCSV_empty_view:
  "split (CHR 0x0A)
     (dl_content
        (exportCSV (\<lambda>x. if x < 0 then ''-'' @ showNat (nat \<lfloor>- x\<rfloor>) else showNat (nat \<lfloor>x\<rfloor>))
           \<lparr>ld_year = 2024, ld_month = Apr, ld_day = 2\<rparr>
           (fetchReportData \<lparr>ld_year = 2024, ld_month = Mar, ld_day = 31\<rparr> None)))
     = [''Month,Income,Expense,Net'']
   \<and> length (split (CHR 0x0A)
       (dl_content
          (exportCSV (\<lambda>x. if x < 0 then ''-'' @ showNat (nat \<lfloor>- x\<rfloor>) else showNat (nat \<lfloor>x\<rfloor>))
             \<lparr>ld_year = 2024, ld_month = Apr, ld_day = 2\<rparr>
             (fetchReportData \<lparr>ld_year = 2024, ld_month = Mar, ld_day = 31\<rparr> None))))
     \<noteq> 7"
  by (simp add: fetchReportData_def exportCSV_def)

subsection \<open>Category bucketing\<close>

lemma addToCategory_map_of:
  assumes "n \<notin> set Object_prototype_keys"
  shows "map_of (addToCategory acc t) n
    = (if map_option cat_name (tx_category t) = Some n
       then (case map_of acc n of
               None \<Rightarrow> Some (tx_amount t, bucketColor t)
             | Some (v, c) \<Rightarrow> Some (v + tx_amount t, c))
       else map_of acc n)"
proof (cases "tx_category t")
  case None
  then show ?thesis by (simp add: addToCategory_def)
next
  case (Some c)
  show ?thesis
  proof (cases "cat_name c = n")
    case True
    with Some assms show ?thesis
      by (auto simp: addToCategory_def Let_def update_conv' bucketColor_def or_else_def COLORS_def
          split: option.splits)
  next
    case False
    with Some show ?thesis
      by (auto simp: addToCategory_def Let_def update_conv' split: option.splits)
  qed
qed

lemma foldl_addToCategory_map_of:
  assumes "n \<notin> set Object_prototype_keys"
  shows "map_of (foldl addToCategory acc xs) n
    = (case map_of acc n of
         Some (v, c) \<Rightarrow>
           Some (v + sum_list (map tx_amount
                   (filter (\<lambda>t. map_option cat_name (tx_category t) = Some n) xs)), c)
       | None \<Rightarrow>
           (case filter (\<lambda>t. map_option cat_name (tx_category t) = Some n) xs of
              [] \<Rightarrow> None
            | t # ts \<Rightarrow> Some (sum_list (map tx_amount (t # ts)), bucketColor t)))"
proof (induction xs arbitrary: acc)
  case Nil
  then show ?case by (simp split: option.splits)
next
  case (Cons x xs)
  show ?case
    by (simp only: foldl_Cons Cons.IH addToCategory_map_of [OF assms])
       (auto split: option.splits list.splits)
qed

lemma addToCategory_distinct:
  "distinct (map fst acc) \<Longrightarrow> distinct (map fst (addToCategory acc t))"
  by (auto simp: addToCategory_def Let_def distinct_update split: option.splits)

lemma foldl_addToCategory_distinct:
  "distinct (map fst acc) \<Longrightarrow> distinct (map fst (foldl addToCategory acc xs))"
  by (induction xs arbitrary: acc) (simp_all add: addToCategory_distinct)

lemma set_Object_entries: "set (Object_entries obj) = set obj"
  by (auto simp: Object_entries_def)

lemma distinct_Object_entries:
  assumes "distinct (map fst obj)"
  shows "distinct (map fst (Object_entries obj))"
proof -
  from assms have d: "distinct obj" and i: "inj_on fst (set obj)"
    by (simp_all add: distinct_map)
  have "distinct (Object_entries obj)"
    using d by (auto simp: Object_entries_def)
  with i show ?thesis by (simp add: distinct_map set_Object_entries)
qed

lemma categoryMap_lookup:
  assumes "n \<notin> set Object_prototype_keys"
  shows "map_of (foldl addToCategory []
            (filter (\<lambda>t. tx_type t = ''expense'' \<and> tx_category t \<noteq> None) ts)) n
    = (case categoryExpenses n ts of
         [] \<Rightarrow> None
       | t # r \<Rightarrow> Some (sum_list (map tx_amount (categoryExpenses n ts)), bucketColor t))"
proof -
  have f: "filter (\<lambda>t. map_option cat_name (tx_category t) = Some n)
             (filter (\<lambda>t. tx_type t = ''expense'' \<and> tx_category t \<noteq> None) ts)
      = categoryExpenses n ts"
    by (auto simp: categoryExpenses_def intro: filter_cong)
  show ?thesis
    by (simp only: foldl_addToCategory_map_of [OF assms] f) (simp split: list.splits)
qed

lemma processCategoryData_names:
  "cd_name ` set (processCategoryData ts)
     = fst ` set (foldl addToCategory []
         (filter (\<lambda>t. tx_type t = ''expense'' \<and> tx_category t \<noteq> None) ts))"
  by (force simp: processCategoryData_def set_Object_entries image_iff)

lemma processCategoryData_member:
  "(n, v, c) \<in> set (foldl addToCategory []
       (filter (\<lambda>t. tx_type t = ''expense'' \<and> tx_category t \<noteq> None) ts))
   \<Longrightarrow> \<lparr>cd_name = n, cd_value = v, cd_color = c\<rparr> \<in> set (processCategoryData ts)"
  by (force simp: processCategoryData_def set_Object_entries image_iff)

lemma processCategoryData_distinct: "distinct (map cd_name (processCategoryData ts))"
proof -
  have "map cd_name (processCategoryData ts)
      = map fst (Object_entries (foldl addToCategory []
          (filter (\<lambda>t. tx_type t = ''expense'' \<and> tx_category t \<noteq> None) ts)))"
    by (simp add: processCategoryData_def comp_def case_prod_beta)
  then show ?thesis
    by (simp add: distinct_Object_entries foldl_addToCategory_distinct)
qed

text \<open>
  Claim C2, as amended. For every transaction list and every category name \<open>n\<close> that is
  not the name of a property inherited from \<open>Object.prototype\<close>: the aggregation has a
  bucket named \<open>n\<close> exactly when some expense-type transaction has a category named \<open>n\<close>
  (so categories sharing a name share the bucket, and no two buckets have the same name);
  the bucket's value is the sum of the amounts of those transactions, and its color is the
  color of the category of the first of them, or \<open>#3B82F6\<close> when that color is null or
  empty. An income-type transaction and a transaction without a category can be taken out
  of the list without changing the result.
\<close>

theorem processCategoryData_buckets:
  assumes "n \<notin> set Object_prototype_keys"
  shows "(categoryExpenses n ts = [] \<longrightarrow> n \<notin> cd_name ` set (processCategoryData ts))
    \<and> (categoryExpenses n ts \<noteq> [] \<longrightarrow>
         \<lparr>cd_name = n, cd_value = sum_list (map tx_amount (categoryExpenses n ts)),
          cd_color = bucketColor (hd (categoryExpenses n ts))\<rparr>
           \<in> set (processCategoryData ts))
    \<and> distinct (map cd_name (processCategoryData ts))
    \<and> (tx_type t \<noteq> ''expense'' \<or> tx_category t = None \<longrightarrow>
         processCategoryData (xs @ t # ys) = processCategoryData (xs @ ys))"
proof -
  let ?m = "foldl addToCategory []
      (filter (\<lambda>t. tx_type t = ''expense'' \<and> tx_category t \<noteq> None) ts)"
  have absent: "categoryExpenses n ts = [] \<longrightarrow> n \<notin> cd_name ` set (processCategoryData ts)"
  proof
    assume "categoryExpenses n ts = []"
    with categoryMap_lookup [OF assms, of ts] have "map_of ?m n = None"
      by simp
    then have "n \<notin> fst ` set ?m"
      by (rule map_of_eq_None_iff [THEN iffD1])
    then show "n \<notin> cd_name ` set (processCategoryData ts)"
      unfolding processCategoryData_names .
  qed
  have present: "categoryExpenses n ts \<noteq> [] \<longrightarrow>
         \<lparr>cd_name = n, cd_value = sum_list (map tx_amount (categoryExpenses n ts)),
          cd_color = bucketColor (hd (categoryExpenses n ts))\<rparr>
           \<in> set (processCategoryData ts)"
  proof
    assume "categoryExpenses n ts \<noteq> []"
    with categoryMap_lookup [OF assms, of ts]
    have "map_of ?m n = Some (sum_list (map tx_amount (categoryExpenses n ts)),
        bucketColor (hd (categoryExpenses n ts)))"
      by (simp split: list.splits)
    then have "(n, sum_list (map tx_amount (categoryExpenses n ts)),
        bucketColor (hd (categoryExpenses n ts))) \<in> set ?m"
      by (rule map_of_SomeD)
    then show "\<lparr>cd_name = n, cd_value = sum_list (map tx_amount (categoryExpenses n ts)),
          cd_color = bucketColor (hd (categoryExpenses n ts))\<rparr>
           \<in> set (processCategoryData ts)"
      by (rule processCategoryData_member)
  qed
  have drop: "tx_type t \<noteq> ''expense'' \<or> tx_category t = None \<longrightarrow>
         processCategoryData (xs @ t # ys) = processCategoryData (xs @ ys)"
    by (auto simp: processCategoryData_def)
  from absent present drop processCategoryData_distinct [of ts] show ?thesis by simp
qed

theorem processCategoryData_buckets_witness:
  "''Food'' \<notin> set Object_prototype_keys
   \<and> \<lparr>cd_name = ''Food'', cd_value = 17, cd_color = ''#10B981''\<rparr>
     \<in> set (processCategoryData
         [\<lparr>tx_type = ''expense'', tx_amount = 10,
           tx_date = \<lparr>ld_year = 2024, ld_month = Mar, ld_day = 1\<rparr>,
           tx_category = Some \<lparr>cat_name = ''Food'', cat_color = Some ''#10B981''\<rparr>\<rparr>,
          \<lparr>tx_type = ''income'', tx_amount = 200,
           tx_date = \<lparr>ld_year = 2024, ld_month = Mar, ld_day = 2\<rparr>,
           tx_category = Some \<lparr>cat_name = ''Food'', cat_color = Some ''#F59E0B''\<rparr>\<rparr>,
          \<lparr>tx_type = ''expense'', tx_amount = 7,
           tx_date = \<lparr>ld_year = 2024, ld_month = Mar, ld_day = 3\<rparr>,
           tx_category = Some \<lparr>cat_name = ''Food'', cat_color = Some ''#EF4444''\<rparr>\<rparr>,
          \<lparr>tx_type = ''expense'', tx_amount = 30,
           tx_date = \<lparr>ld_year = 2024, ld_month = Mar, ld_day = 4\<rparr>,
           tx_category = None\<rparr>])"
proof -
  let ?a = "\<lparr>tx_type = ''expense'', tx_amount = 10,
           tx_date = \<lparr>ld_year = 2024, ld_month = Mar, ld_day = 1\<rparr>,
           tx_category = Some \<lparr>cat_name = ''Food'', cat_color = Some ''#10B981''\<rparr>\<rparr>"
  let ?b = "\<lparr>tx_type = ''income'', tx_amount = 200,
           tx_date = \<lparr>ld_year = 2024, ld_month = Mar, ld_day = 2\<rparr>,
           tx_category = Some \<lparr>cat_name = ''Food'', cat_color = Some ''#F59E0B''\<rparr>\<rparr>"
  let ?c = "\<lparr>tx_type = ''expense'', tx_amount = 7,
           tx_date = \<lparr>ld_year = 2024, ld_month = Mar, ld_day = 3\<rparr>,
           tx_category = Some \<lparr>cat_name = ''Food'', cat_color = Some ''#EF4444''\<rparr>\<rparr>"
  let ?d = "\<lparr>tx_type = ''expense'', tx_amount = 30,
           tx_date = \<lparr>ld_year = 2024, ld_month = Mar, ld_day = 4\<rparr>,
           tx_category = None\<rparr>"
  have h: "''Food'' \<notin> set Object_prototype_keys"
    by (simp add: Object_prototype_keys_def)
  have e: "categoryExpenses ''Food'' [?a, ?b, ?c, ?d] = [?a, ?c]"
    by (simp add: categoryExpenses_def)
  have c: "bucketColor ?a = ''#10B981''"
    by (simp add: bucketColor_def)
  from processCategoryData_buckets [OF h, of "[?a, ?b, ?c, ?d]", THEN conjunct2, THEN conjunct1]
  have "\<lparr>cd_name = ''Food'', cd_value = 17, cd_color = ''#10B981''\<rparr>
     \<in> set (processCategoryData [?a, ?b, ?c, ?d])"
    by (simp only: e list.sel c) simp
  with h show ?thesis by (rule conjI)
qed

text \<open>
  The claim as it was stated fails on two expenses: the first has a category without a
  color, and its bucket gets the default color, not a color of the transaction; the second
  has a category named \<open>constructor\<close>, and no bucket is made for it.
\<close>

theorem processCategoryData_counterexample:
  "processCategoryData
     [\<lparr>tx_type = ''expense'', tx_amount = 10,
       tx_date = \<lparr>ld_year = 2024, ld_month = Mar, ld_day = 1\<rparr>,
       tx_category = Some \<lparr>cat_name = ''Food'', cat_color = None\<rparr>\<rparr>,
      \<lparr>tx_type = ''expense'', tx_amount = 5,
       tx_date = \<lparr>ld_year = 2024, ld_month = Mar, ld_day = 2\<rparr>,
       tx_category = Some \<lparr>cat_name = ''constructor'', cat_color = Some ''#EF4444''\<rparr>\<rparr>]
     = [\<lparr>cd_name = ''Food'', cd_value = 10, cd_color = ''#3B82F6''\<rparr>]
   \<and> map_option cat_color
       (tx_category
          \<lparr>tx_type = ''expense'', tx_amount = 10,
           tx_date = \<lparr>ld_year = 2024, ld_month = Mar, ld_day = 1\<rparr>,
           tx_category = Some \<lparr>cat_name = ''Food'', cat_color = None\<rparr>\<rparr>)
     = Some None
   \<and> categoryExpenses ''constructor''
       [\<lparr>tx_type = ''expense'', tx_amount = 10,
         tx_date = \<lparr>ld_year = 2024, ld_month = Mar, ld_day = 1\<rparr>,
         tx_category = Some \<lparr>cat_name = ''Food'', cat_color = None\<rparr>\<rparr>,
        \<lparr>tx_type = ''expense'', tx_amount = 5,
         tx_date = \<lparr>ld_year = 2024, ld_month = Mar, ld_day = 2\<rparr>,
         tx_category = Some \<lparr>cat_name = ''constructor'', cat_color = Some ''#EF4444''\<rparr>\<rparr>]
     \<noteq> []"
  by (simp add: processCategoryData_def addToCategory_def Let_def Object_prototype_keys_def
      or_else_def COLORS_def Object_entries_def isArrayIndex_def isDigit_def
      categoryExpenses_def)

subsection \<open>Global stats\<close>

text \<open>
  Claim C3. For every transaction list, \<open>calculateStats\<close> returns as total income the sum
  of the amounts of the income-type transactions, as total expense the sum of the amounts
  of the expense-type transactions, and as net balance the total income minus the total
  expense; on the empty list the net balance is 0. For the wallets with balances 100.00
  and 50.00 and the transactions income 200 and expense 75, the Dashboard totals are
  150, 200 and 75, and the net balance of the Reports page is 125.
\<close>

theorem calculateStats_totals:
  "totalIncome (calculateStats ts)
     = sum_list (map tx_amount (filter (\<lambda>t. tx_type t = ''income'') ts))
   \<and> totalExpense (calculateStats ts)
     = sum_list (map tx_amount (filter (\<lambda>t. tx_type t = ''expense'') ts))
   \<and> netBalance (calculateStats ts)
     = totalIncome (calculateStats ts) - totalExpense (calculateStats ts)
   \<and> netBalance (calculateStats []) = 0
   \<and> dashboardStats
       (Some [\<lparr>w_name = n1, w_balance = 100\<rparr>, \<lparr>w_name = n2, w_balance = 50\<rparr>])
       [\<lparr>tx_type = ''income'', tx_amount = 200, tx_date = d1, tx_category = c1\<rparr>,
        \<lparr>tx_type = ''expense'', tx_amount = 75, tx_date = d2, tx_category = c2\<rparr>]
     = \<lparr>ds_totalBalance = 150, ds_income = 200, ds_expenses = 75\<rparr>
   \<and> calculateStats
       [\<lparr>tx_type = ''income'', tx_amount = 200, tx_date = d1, tx_category = c1\<rparr>,
        \<lparr>tx_type = ''expense'', tx_amount = 75, tx_date = d2, tx_category = c2\<rparr>]
     = \<lparr>totalIncome = 200, totalExpense = 75, netBalance = 125\<rparr>"
  by (simp add: calculateStats_def dashboardStats_def Let_def foldl_plus_sum_list)

subsection \<open>Transactions of another type\<close>

text \<open>
  Claim C10. A transaction whose type is neither \<open>income\<close> nor \<open>expense\<close> contributes
  nothing to any aggregate: taking it out of the list changes neither the monthly buckets,
  nor the category buckets, nor the global stats (total income, total expense and net
  balance); the step of the monthly loop leaves every bucket as it is, and alone it
  produces no category bucket.
\<close>

theorem other_types_contribute_nothing:
  assumes "tx_type t \<noteq> ''income''" and "tx_type t \<noteq> ''expense''"
  shows "processMonthlyData now (xs @ t # ys) = processMonthlyData now (xs @ ys)
    \<and> addToMonth monthsData t = monthsData
    \<and> processCategoryData (xs @ t # ys) = processCategoryData (xs @ ys)
    \<and> processCategoryData [t] = []
    \<and> calculateStats (xs @ t # ys) = calculateStats (xs @ ys)"
proof -
  have m: "processMonthlyData now (xs @ t # ys) = processMonthlyData now (xs @ ys)"
    using assms by (simp add: processMonthlyData_eq monthIncome_drop monthExpense_drop)
  have a: "addToMonth monthsData t = monthsData"
    using assms by (simp add: addToMonth_def Let_def split: option.splits)
  have c: "processCategoryData (xs @ t # ys) = processCategoryData (xs @ ys)"
    using assms by (simp add: processCategoryData_def)
  have c1: "processCategoryData [t] = []"
    using assms by (simp add: processCategoryData_def Object_entries_def)
  have s: "calculateStats (xs @ t # ys) = calculateStats (xs @ ys)"
    using assms by (simp add: calculateStats_def)
  from m a c c1 s show ?thesis by simp
qed

theorem other_types_contribute_nothing_witness:
  "calculateStats
     [\<lparr>tx_type = ''income'', tx_amount = 200,
       tx_date = \<lparr>ld_year = 2024, ld_month = Mar, ld_day = 1\<rparr>, tx_category = None\<rparr>,
      \<lparr>tx_type = ''transfer'', tx_amount = 40,
       tx_date = \<lparr>ld_year = 2024, ld_month = Mar, ld_day = 2\<rparr>,
       tx_category = Some \<lparr>cat_name = ''Food'', cat_color = Some ''#10B981''\<rparr>\<rparr>]
     = \<lparr>totalIncome = 200, totalExpense = 0, netBalance = 200\<rparr>
   \<and> processCategoryData
     [\<lparr>tx_type = ''income'', tx_amount = 200,
       tx_date = \<lparr>ld_year = 2024, ld_month = Mar, ld_day = 1\<rparr>, tx_category = None\<rparr>,
      \<lparr>tx_type = ''transfer'', tx_amount = 40,
       tx_date = \<lparr>ld_year = 2024, ld_month = Mar, ld_day = 2\<rparr>,
       tx_category = Some \<lparr>cat_name = ''Food'', cat_color = Some ''#10B981''\<rparr>\<rparr>]
     = processCategoryData
     [\<lparr>tx_type = ''income'', tx_amount = 200,
       tx_date = \<lparr>ld_year = 2024, ld_month = Mar, ld_day = 1\<rparr>, tx_category = None\<rparr>]
   \<and> processMonthlyData \<lparr>ld_year = 2024, ld_month = Mar, ld_day = 31\<rparr>
     [\<lparr>tx_type = ''income'', tx_amount = 200,
       tx_date = \<lparr>ld_year = 2024, ld_month = Mar, ld_day = 1\<rparr>, tx_category = None\<rparr>,
      \<lparr>tx_type = ''transfer'', tx_amount = 40,
       tx_date = \<lparr>ld_year = 2024, ld_month = Mar, ld_day = 2\<rparr>,
       tx_category = Some \<lparr>cat_name = ''Food'', cat_color = Some ''#10B981''\<rparr>\<rparr>]
     = processMonthlyData \<lparr>ld_year = 2024, ld_month = Mar, ld_day = 31\<rparr>
     [\<lparr>tx_type = ''income'', tx_amount = 200,
       tx_date = \<lparr>ld_year = 2024, ld_month = Mar, ld_day = 1\<rparr>, tx_category = None\<rparr>]"
proof -
  let ?a = "\<lparr>tx_type = ''income'', tx_amount = 200,
       tx_date = \<lparr>ld_year = 2024, ld_month = Mar, ld_day = 1\<rparr>, tx_category = None\<rparr>"
  let ?t = "\<lparr>tx_type = ''transfer'', tx_amount = 40,
       tx_date = \<lparr>ld_year = 2024, ld_month = Mar, ld_day = 2\<rparr>,
       tx_category = Some \<lparr>cat_name = ''Food'', cat_color = Some ''#10B981''\<rparr>\<rparr>"
  have h: "tx_type ?t \<noteq> ''income''" "tx_type ?t \<noteq> ''expense''" by simp_all
  have v: "calculateStats [?a] = \<lparr>totalIncome = 200, totalExpense = 0, netBalance = 200\<rparr>"
    by (simp add: calculateStats_def)
  from other_types_contribute_nothing
         [OF h, of "\<lparr>ld_year = 2024, ld_month = Mar, ld_day = 31\<rparr>" "[?a]" "[]" "[]"] v
  show ?thesis by (simp only: append.simps)
qed

subsection \<open>The assistant responder\<close>





lemma toLowerCase_balance: "toLowerCase ''balance'' = ''balance''"
  by (simp add: toLowerCase_def lowerChar_def)



lemma getFinancialContext_Some:
  "getFinancialContext (Some db)
     = Some \<lparr>walletsCount = length (case b_wallets db of None \<Rightarrow> [] | Some ws \<Rightarrow> ws),
             totalBalance = sum_list (map w_balance (case b_wallets db of None \<Rightarrow> [] | Some ws \<Rightarrow> ws)),
             recentIncome = sum_list (map tx_amount (filter (\<lambda>t. tx_type t = ''income'')
               (case b_transactions db of None \<Rightarrow> [] | Some ts \<Rightarrow> take 20 ts))),
             recentExpenses = sum_list (map tx_amount (filter (\<lambda>t. tx_type t = ''expense'')
               (case b_transactions db of None \<Rightarrow> [] | Some ts \<Rightarrow> take 20 ts))),
             transactionsCount = length (case b_transactions db of None \<Rightarrow> [] | Some ts \<Rightarrow> take 20 ts)\<rparr>"
  by (cases "b_transactions db")
     (simp_all add: getFinancialContext_def Let_def limit_def foldl_plus_sum_list)










subsection \<open>The snapshot of the assistant\<close>

text \<open>
  Claim C7 (the code differs). The snapshot counts the wallets and sums all their balances,
  but its income and expense sums run over the first 20 rows in the order of the store,
  which are the 20 most recent ones only when the store happens to return the rows by
  decreasing date. On 21 income rows dated 1 to 21 March, with amounts 1 to 21, returned
  by increasing date, the snapshot's recent income is 210 (rows 1 to 20), while the 20
  most recent rows (2 to 21), which \<open>order_date_desc\<close> and \<open>limit\<close> select as on the
  Dashboard, sum to 230.
\<close>

theorem getFinancialContext_first_twenty_rows:
  "getFinancialContext (Some \<lparr>b_wallets = Some ws, b_transactions = Some rows\<rparr>)
     = Some \<lparr>walletsCount = length ws,
             totalBalance = sum_list (map w_balance ws),
             recentIncome =
               sum_list (map tx_amount (filter (\<lambda>t. tx_type t = ''income'') (take 20 rows))),
             recentExpenses =
               sum_list (map tx_amount (filter (\<lambda>t. tx_type t = ''expense'') (take 20 rows))),
             transactionsCount = length (take 20 rows)\<rparr>
   \<and> map_option recentIncome
       (getFinancialContext
          (Some \<lparr>b_wallets = Some [],
                 b_transactions = Some
                   (map (\<lambda>i. \<lparr>tx_type = ''income'', tx_amount = of_nat i,
                               tx_date = \<lparr>ld_year = 2024, ld_month = Mar, ld_day = i\<rparr>,
                               tx_category = None\<rparr>) [1..<22])\<rparr>))
     = Some 210
   \<and> sum_list (map tx_amount (filter (\<lambda>t. tx_type t = ''income'')
       (limit 20 (order_date_desc
          (map (\<lambda>i. \<lparr>tx_type = ''income'', tx_amount = of_nat i,
                      tx_date = \<lparr>ld_year = 2024, ld_month = Mar, ld_day = i\<rparr>,
                      tx_category = None\<rparr>) [1..<22])))))
     = 230"
proof -
  have general: "getFinancialContext (Some \<lparr>b_wallets = Some ws, b_transactions = Some rows\<rparr>)
     = Some \<lparr>walletsCount = length ws,
             totalBalance = sum_list (map w_balance ws),
             recentIncome =
               sum_list (map tx_amount (filter (\<lambda>t. tx_type t = ''income'') (take 20 rows))),
             recentExpenses =
               sum_list (map tx_amount (filter (\<lambda>t. tx_type t = ''expense'') (take 20 rows))),
             transactionsCount = length (take 20 rows)\<rparr>"
    by (simp add: getFinancialContext_Some)
  have code: "map_option recentIncome
       (getFinancialContext
          (Some \<lparr>b_wallets = Some [],
                 b_transactions = Some
                   (map (\<lambda>i. \<lparr>tx_type = ''income'', tx_amount = of_nat i,
                               tx_date = \<lparr>ld_year = 2024, ld_month = Mar, ld_day = i\<rparr>,
                               tx_category = None\<rparr>) [1..<22])\<rparr>))
     = Some 210"
    by (simp add: getFinancialContext_def Let_def limit_def upt_rec)
  have recent: "sum_list (map tx_amount (filter (\<lambda>t. tx_type t = ''income'')
       (limit 20 (order_date_desc
          (map (\<lambda>i. \<lparr>tx_type = ''income'', tx_amount = of_nat i,
                      tx_date = \<lparr>ld_year = 2024, ld_month = Mar, ld_day = i\<rparr>,
                      tx_category = None\<rparr>) [1..<22])))))
     = 230"
    by (simp add: limit_def order_date_desc_def dateKey_def upt_rec)
  from general code recent show ?thesis by (intro conjI)
qed

subsection \<open>The savings rate of the assistant\<close>

text \<open>
  Claim C9. In the savings branch the division is guarded: when the recent income is 0
  the savings rate is exactly 0 (and it is reported as the rendering of 0), when the recent
  income is positive the rate is (income - expenses) / income * 100, and in every case the
  rate is a finite number, so no division by zero has produced it.
\<close>

theorem savingsRate_guarded:
  "(recentIncome ctx = 0 \<longrightarrow>
      savingsRate ctx = Finite 0 \<and> toFixed toFixed1 (savingsRate ctx) = toFixed1 0)
   \<and> (recentIncome ctx > 0 \<longrightarrow>
        savingsRate ctx
          = Finite ((recentIncome ctx - recentExpenses ctx) / recentIncome ctx * 100))
   \<and> (\<exists>r. savingsRate ctx = Finite r)"
  by (simp add: savingsRate_def js_div_def js_times_def savings_def toFixed_def)

theorem savingsRate_guarded_witness:
  "savingsRate \<lparr>walletsCount = 2, totalBalance = 150, recentIncome = 0,
                 recentExpenses = 75, transactionsCount = 1\<rparr> = Finite 0
   \<and> savingsRate \<lparr>walletsCount = 2, totalBalance = 150, recentIncome = 200,
                   recentExpenses = 75, transactionsCount = 2\<rparr> = Finite (125 / 2)"
  using
    savingsRate_guarded [of "\<lparr>walletsCount = 2, totalBalance = 150, recentIncome = 0,
                              recentExpenses = 75, transactionsCount = 1\<rparr>"]
    savingsRate_guarded [of "\<lparr>walletsCount = 2, totalBalance = 150, recentIncome = 200,
                              recentExpenses = 75, transactionsCount = 2\<rparr>"]
  by simp

subsection \<open>The type buttons of the transaction form\<close>

text \<open>
  Claim C8. Whatever the form holds, pressing a type button (income or expense) sets the
  form's type to that type and its category to the empty value, and the categories offered
  afterwards are exactly the categories of the newly selected type.
\<close>

theorem type_switch_clears_category:
  "fd_category_id (onClickIncome fd) = []
   \<and> fd_type (onClickIncome fd) = ''income''
   \<and> availableCategories cats (onClickIncome fd) = filter (\<lambda>c. c_type c = ''income'') cats
   \<and> set (availableCategories cats (onClickIncome fd)) = {c \<in> set cats. c_type c = ''income''}
   \<and> fd_category_id (onClickExpense fd) = []
   \<and> fd_type (onClickExpense fd) = ''expense''
   \<and> availableCategories cats (onClickExpense fd) = filter (\<lambda>c. c_type c = ''expense'') cats
   \<and> set (availableCategories cats (onClickExpense fd)) = {c \<in> set cats. c_type c = ''expense''}"
  by (simp add: onClickIncome_def onClickExpense_def availableCategories_def)

end
